theory Spec2Isabelle
  imports Complex_Main "HOL-Library.List_Lexorder" "HOL-Library.Sublist"
begin

text \<open>
  The program \<open>st_quiz.py\<close> is a Streamlit script: it loads a table of medical reference
  sections, lets the user select sections and give URLs to scrape, and on a button
  press sends the selected and scraped text to a language model that writes a quiz.
  This theory models the script as functions of the widget values and of the outside
  world, and proves the properties claimed of it.
\<close>

section \<open>Python strings\<close>

text \<open>
  A Python \<open>str\<close> is a sequence of Unicode code points, so it is modelled as the list of
  its code points. \<open>sorted\<close> on strings compares code point by code point, which is the
  lexicographic order on lists of numbers.
\<close>

type_synonym pystr = "nat list"

text \<open>An ASCII literal of the source, as the string of its code points.\<close>

definition u :: "string \<Rightarrow> pystr" where
  "u s = map of_char s"

text \<open>
  The characters \<open>str.strip()\<close> and \<open>str.split()\<close> treat as whitespace
  (\<open>str.isspace\<close>), and the line boundaries of \<open>str.splitlines()\<close>.
\<close>

definition isspace :: "nat \<Rightarrow> bool" where
  "isspace c \<longleftrightarrow>
     (0x09 \<le> c \<and> c \<le> 0x0D) \<or> (0x1C \<le> c \<and> c \<le> 0x20) \<or> c = 0x85 \<or> c = 0xA0 \<or>
     c = 0x1680 \<or> (0x2000 \<le> c \<and> c \<le> 0x200A) \<or> c = 0x2028 \<or> c = 0x2029 \<or>
     c = 0x202F \<or> c = 0x205F \<or> c = 0x3000"

definition is_linebreak :: "nat \<Rightarrow> bool" where
  "is_linebreak c \<longleftrightarrow>
     (0x0A \<le> c \<and> c \<le> 0x0D) \<or> (0x1C \<le> c \<and> c \<le> 0x1E) \<or> c = 0x85 \<or>
     c = 0x2028 \<or> c = 0x2029"

text \<open>\<open>s.strip()\<close>: whitespace removed at both ends.\<close>

definition strip :: "pystr \<Rightarrow> pystr" where
  "strip s = rev (dropWhile isspace (rev (dropWhile isspace s)))"

text \<open>
  \<open>s.split()\<close>: the maximal runs of non-whitespace characters, in order. The loop skips
  whitespace, stops at the end of the string, and otherwise reads one word.
\<close>

function split :: "pystr \<Rightarrow> pystr list" where
  "split s =
     (case dropWhile isspace s of
        [] \<Rightarrow> []
      | c # cs \<Rightarrow>
          (c # takeWhile (\<lambda>x. \<not> isspace x) cs) # split (dropWhile (\<lambda>x. \<not> isspace x) cs))"
  by pat_completeness auto
termination
proof (relation "measure length")
  show "wf (measure length)" by simp
next
  fix s :: pystr and c cs
  assume h: "dropWhile isspace s = c # cs"
  have "length (dropWhile (\<lambda>x. \<not> isspace x) cs) \<le> length cs"
    by (rule length_dropWhile_le)
  also have "length cs < length (dropWhile isspace s)"
    by (simp add: h)
  also have "length (dropWhile isspace s) \<le> length s"
    by (rule length_dropWhile_le)
  finally show "(dropWhile (\<lambda>x. \<not> isspace x) cs, s) \<in> measure length"
    by simp
qed

text \<open>\<open>sep.join(xs)\<close>.\<close>

fun join :: "pystr \<Rightarrow> pystr list \<Rightarrow> pystr" where
  "join sep [] = []"
| "join sep [x] = x"
| "join sep (x # y # ys) = x @ sep @ join sep (y # ys)"

text \<open>
  \<open>s.splitlines()\<close>: the lines of \<open>s\<close> without their line ends; \<open>\r\n\<close> is one line
  end, and there is no empty last line after a final line end. The first argument is the
  line read so far.
\<close>

fun splitlines_from :: "pystr \<Rightarrow> pystr \<Rightarrow> pystr list" where
  "splitlines_from line [] = (if line = [] then [] else [line])"
| "splitlines_from line [c] = (if is_linebreak c then [line] else [line @ [c]])"
| "splitlines_from line (c # d # cs) =
     (if c = 0x0D \<and> d = 0x0A then line # splitlines_from [] cs
      else if is_linebreak c then line # splitlines_from [] (d # cs)
      else splitlines_from (line @ [c]) (d # cs))"

definition splitlines :: "pystr \<Rightarrow> pystr list" where
  "splitlines s = splitlines_from [] s"

declare split.simps [simp del]

section \<open>Values, exceptions and the outside world\<close>

text \<open>
  A cell that may hold no value: Python's \<open>None\<close> in a row read by \<open>csv.DictReader\<close>,
  \<open>NaN\<close> in a column of a pandas \<open>DataFrame\<close>. The columns hold text.
\<close>

record row =
  title :: "pystr option"
  section_title :: "pystr option"
  section_text :: "pystr option"

text \<open>
  What \<open>load_treatments_data\<close> returns when the file exists: a \<open>DataFrame\<close> when pandas
  is installed, a list of dictionaries otherwise.
\<close>

datatype dataset = DataFrame "row list" | RowList "row list"

text \<open>
  The exceptions of the program, all of them instances of \<open>Exception\<close>: the
  \<open>RuntimeError\<close> that \<open>create_quiz\<close> raises, and an error raised inside a library call
  (\<open>requests\<close>, the secrets store, the completion client). Each carries its message,
  \<open>str(exc)\<close>.
\<close>

datatype py_exception = RuntimeError pystr | LibraryError pystr

fun str_exc :: "py_exception \<Rightarrow> pystr" where
  "str_exc (RuntimeError msg) = msg"
| "str_exc (LibraryError msg) = msg"

text \<open>\<open>try: body except Exception as exc: handler\<close>.\<close>

definition try_except ::
  "py_exception + 'a \<Rightarrow> (py_exception \<Rightarrow> py_exception + 'a) \<Rightarrow> py_exception + 'a" where
  "try_except body handler = (case body of Inl exc \<Rightarrow> handler exc | Inr v \<Rightarrow> Inr v)"

record response =
  status_code :: nat
  response_text :: pystr

text \<open>
  A fetch result is the dictionary \<open>{"url": ..., "text": ...}\<close> or
  \<open>{"url": ..., "error": ...}\<close>.
\<close>

type_synonym fetch_result = "string \<rightharpoonup> pystr"

text \<open>The value passed as \<open>link_text\<close>: the list of scraped texts, or the string \<open>""\<close>.\<close>

datatype link_text_value = LinkList "pystr list" | LinkStr pystr

text \<open>The dictionary \<open>inputs\<close> that fills the slots of the prompt template.\<close>

record quiz_inputs =
  article :: pystr
  questions :: int
  focus :: pystr
  lakemedel :: pystr
  link_text :: link_text_value

text \<open>The keyword arguments of \<open>AzureChatOpenAI\<close>.\<close>

record llm_config =
  azure_deployment :: pystr
  api_version :: pystr
  azure_endpoint :: pystr
  api_key :: pystr
  temperature :: real

text \<open>
  Everything the program reads from outside itself: the dataset file (its content, when
  it exists) and the two readers, the secrets store (\<open>st.secrets\<close>: reading it gives the dictionary
  of the secrets file, or raises when there is no secrets file or it cannot be read), the
  HTTP transport (\<open>requests.get\<close> with the fixed headers and the timeout of 20 seconds: it
  returns a response or raises), the message of an \<open>HTTPError\<close>, the HTML parser
  (\<open>'soup\<close> is the type of a parsed document; \<open>decompose\<close> removes the elements with the
  given tag names), and the completion capability: \<open>AzureChatOpenAI\<close> gives the exception
  that the constructor raises, if any, and \<open>chain_invoke\<close> what
  \<open>(prompt | llm | StrOutputParser()).invoke(inputs)\<close> returns or raises. The functions
  under \<open>st.cache_data\<close> return what they would compute.
\<close>

record 'soup env =
  treatments_csv :: "pystr option"
  pd_installed :: bool
  pd_read_csv :: "pystr \<Rightarrow> row list"
  csv_DictReader :: "pystr \<Rightarrow> (string \<rightharpoonup> pystr) list"
  secrets :: "py_exception + (string \<rightharpoonup> pystr)"
  requests_get :: "pystr \<Rightarrow> py_exception + response"
  http_error_message :: "response \<Rightarrow> pystr"
  BeautifulSoup :: "pystr \<Rightarrow> 'soup"
  decompose :: "string list \<Rightarrow> 'soup \<Rightarrow> 'soup"
  get_text :: "pystr \<Rightarrow> 'soup \<Rightarrow> pystr"
  AzureChatOpenAI :: "llm_config \<Rightarrow> py_exception option"
  chain_invoke :: "llm_config \<Rightarrow> quiz_inputs \<Rightarrow> py_exception + pystr"

text \<open>
  What a run of the script shows and calls, in order: the messages of \<open>st.error\<close>,
  \<open>st.warning\<close>, \<open>st.info\<close> and \<open>st.markdown\<close>, the divider above the quiz, the two
  \<open>st.multiselect\<close> widgets with their options, and the calls of \<open>scrape_links\<close>,
  \<open>create_quiz\<close>, the client constructor and the chain, each with its arguments. The
  layout of the page (titles, text areas, the dividers above the button, spinners) is
  left out.
\<close>

datatype event =
    StError pystr
  | StWarning pystr
  | StInfo pystr
  | StMarkdown pystr
  | StDivider
  | StMultiselect pystr "pystr list"
  | CallScrapeLinks "pystr list"
  | CallCreateQuiz quiz_inputs
  | NewAzureChatOpenAI llm_config
  | ChainInvoke llm_config quiz_inputs

text \<open>
  The values of the widgets in one run of the script. A multiselect returns the options the
  user picked, in the order picked.
\<close>

record widgets =
  links_text :: pystr
  prompt_text :: pystr
  questions_slider :: int
  lakemedel_text :: pystr
  titel_picks :: "pystr list"
  avsnitt_picks :: "pystr list"
  generate_quiz :: bool

section \<open>Loading the dataset\<close>

definition load_treatments_data :: "'soup env \<Rightarrow> dataset option" where
  "load_treatments_data env =
     (case treatments_csv env of
        None \<Rightarrow> None
      | Some content \<Rightarrow>
          if pd_installed env then Some (DataFrame (pd_read_csv env content))
          else Some (RowList (map (\<lambda>r. \<lparr>title = r ''title'',
                                         section_title = r ''section_title'',
                                         section_text = r ''section_text''\<rparr>)
                                 (csv_DictReader env content))))"

section \<open>Generating the quiz\<close>

text \<open>Truth value of \<open>row.get(...)\<close> and of a secret: \<open>None\<close> and \<open>""\<close> are false.\<close>

definition truthy :: "pystr option \<Rightarrow> bool" where
  "truthy v = (case v of None \<Rightarrow> False | Some s \<Rightarrow> s \<noteq> [])"

text \<open>
  \<open>st.secrets.get(key)\<close> and \<open>st.secrets.get(key, default)\<close>: the lookup first reads the
  secrets and raises if that fails; a key that is not there gives \<open>None\<close>, or the default.
\<close>

definition secrets_get :: "'soup env \<Rightarrow> string \<Rightarrow> py_exception + pystr option" where
  "secrets_get env key =
     (case secrets env of Inl exc \<Rightarrow> Inl exc | Inr store \<Rightarrow> Inr (store key))"

definition secrets_get_default :: "'soup env \<Rightarrow> string \<Rightarrow> pystr \<Rightarrow> py_exception + pystr" where
  "secrets_get_default env key dflt =
     (case secrets env of
        Inl exc \<Rightarrow> Inl exc
      | Inr store \<Rightarrow> Inr (case store key of None \<Rightarrow> dflt | Some v \<Rightarrow> v))"

definition secrets_missing :: pystr where
  "secrets_missing = u ''Azure OpenAI secrets are missing.''"

text \<open>
  \<open>create_quiz\<close> returns the text of the chain or raises, and the calls it made on the
  way. The prompt template has the slots \<open>questions\<close>, \<open>focus\<close>, \<open>article\<close>, \<open>lakemedel\<close>
  and \<open>link_text\<close>; the chain fills them from \<open>inputs\<close>.
\<close>

definition create_quiz ::
  "'soup env \<Rightarrow> pystr \<Rightarrow> pystr \<Rightarrow> int \<Rightarrow> pystr \<Rightarrow> link_text_value
     \<Rightarrow> (py_exception + pystr) \<times> event list" where
  "create_quiz env article_arg focus_arg questions_arg lakemedel_arg link_text_arg =
     (let inputs = \<lparr>article = article_arg, questions = questions_arg, focus = focus_arg,
                     lakemedel = lakemedel_arg, link_text = link_text_arg\<rparr>
      in case secrets_get env ''JOHAN_AZURE_OPENAI_KEY'' of
           Inl exc \<Rightarrow> (Inl exc, [])
         | Inr key \<Rightarrow>
        (case secrets_get_default env ''JOHAN_AZURE_OPENAI_API_VERSION''
                (u ''2024-12-01-preview'') of
           Inl exc \<Rightarrow> (Inl exc, [])
         | Inr version \<Rightarrow>
        (case secrets_get env ''JOHAN_AZURE_OPENAI_ENDPOINT'' of
           Inl exc \<Rightarrow> (Inl exc, [])
         | Inr endpoint \<Rightarrow>
        (case secrets_get_default env ''JOHAN_AZURE_OPENAI_DEPLOYMENT'' (u ''gpt-5-chat'') of
           Inl exc \<Rightarrow> (Inl exc, [])
         | Inr deployment \<Rightarrow>
             if \<not> truthy key \<or> \<not> truthy endpoint
             then (Inl (RuntimeError secrets_missing), [])
             else
               (let llm = \<lparr>azure_deployment = deployment, api_version = version,
                            azure_endpoint = (case endpoint of Some e \<Rightarrow> e | None \<Rightarrow> []),
                            api_key = (case key of Some k \<Rightarrow> k | None \<Rightarrow> []),
                            temperature = 0\<rparr>
                in case AzureChatOpenAI env llm of
                     Some exc \<Rightarrow> (Inl exc, [NewAzureChatOpenAI llm])
                   | None \<Rightarrow> (chain_invoke env llm inputs,
                               [NewAzureChatOpenAI llm, ChainInvoke llm inputs]))))))"

section \<open>Scraping links\<close>

text \<open>
  \<open>response.raise_for_status()\<close> raises \<open>HTTPError\<close> for a status from 400 to 599.
\<close>

definition raise_for_status :: "'soup env \<Rightarrow> response \<Rightarrow> py_exception + unit" where
  "raise_for_status env r =
     (if 400 \<le> status_code r \<and> status_code r < 600
      then Inl (LibraryError (http_error_message env r)) else Inr ())"

text \<open>The body of the \<open>try\<close>: fetch, parse, clean, and append the result.\<close>

definition scrape_try ::
  "'soup env \<Rightarrow> fetch_result list \<Rightarrow> pystr \<Rightarrow> py_exception + fetch_result list" where
  "scrape_try env results link =
     (case requests_get env link of
        Inl exc \<Rightarrow> Inl exc
      | Inr r \<Rightarrow>
          (case raise_for_status env r of
             Inl exc \<Rightarrow> Inl exc
           | Inr _ \<Rightarrow>
               (let soup = BeautifulSoup env (response_text r);
                    soup = decompose env [''script'', ''style'', ''noscript''] soup;
                    text = join (u '' '') (split (get_text env (u '' '') soup))
                in Inr (results @ [[''url'' \<mapsto> link, ''text'' \<mapsto> text]]))))"

text \<open>The loop over the links, with the list \<open>results\<close> it appends to.\<close>

fun scrape_loop ::
  "'soup env \<Rightarrow> fetch_result list \<Rightarrow> pystr list \<Rightarrow> py_exception + fetch_result list" where
  "scrape_loop env results [] = Inr results"
| "scrape_loop env results (link # links) =
     (case try_except (scrape_try env results link)
             (\<lambda>exc. Inr (results @ [[''url'' \<mapsto> link, ''error'' \<mapsto> str_exc exc]])) of
        Inl exc \<Rightarrow> Inl exc
      | Inr results' \<Rightarrow> scrape_loop env results' links)"

definition scrape_links :: "'soup env \<Rightarrow> pystr list \<Rightarrow> py_exception + fetch_result list" where
  "scrape_links env links = scrape_loop env [] links"

section \<open>Selecting sections\<close>

text \<open>The separator of a section label, \<open>" - "\<close>.\<close>

definition label_sep :: pystr where
  "label_sep = u '' - ''"

text \<open>\<open>x in values\<close> and \<open>Series.isin(values)\<close>: a missing value is in no list of strings.\<close>

definition isin :: "pystr option \<Rightarrow> pystr list \<Rightarrow> bool" where
  "isin v vals = (case v of None \<Rightarrow> False | Some s \<Rightarrow> s \<in> set vals)"

text \<open>\<open>Series.dropna()\<close> and the iteration over what is left.\<close>

definition dropna :: "pystr option list \<Rightarrow> pystr list" where
  "dropna vs = List.map_filter (\<lambda>v. v) vs"

subsection \<open>With pandas\<close>

text \<open>\<open>astype(str)\<close> on a cell: \<open>NaN\<close> becomes the string \<open>nan\<close>.\<close>

definition astype_str :: "pystr option \<Rightarrow> pystr" where
  "astype_str v = (case v of None \<Rightarrow> u ''nan'' | Some s \<Rightarrow> s)"

definition titles_pd :: "row list \<Rightarrow> pystr list" where
  "titles_pd data = sort (remdups (dropna (map title data)))"

text \<open>
  \<open>filtered\<close>: the rows whose title is selected, without the rows that miss a title or a
  section title; \<open>section_label_pd\<close> is the column \<open>section_label\<close> assigned to them.
\<close>

definition filtered_pd :: "row list \<Rightarrow> pystr list \<Rightarrow> row list" where
  "filtered_pd data selected_titles =
     filter (\<lambda>r. title r \<noteq> None \<and> section_title r \<noteq> None)
       (filter (\<lambda>r. isin (title r) selected_titles) data)"

definition section_label_pd :: "row \<Rightarrow> pystr" where
  "section_label_pd r = astype_str (title r) @ label_sep @ astype_str (section_title r)"

definition section_labels_pd :: "row list \<Rightarrow> pystr list \<Rightarrow> pystr list" where
  "section_labels_pd data selected_titles =
     sort (remdups (map section_label_pd (filtered_pd data selected_titles)))"

definition section_text_output_pd :: "row list \<Rightarrow> pystr list \<Rightarrow> pystr list \<Rightarrow> pystr list" where
  "section_text_output_pd data selected_titles selected_sections =
     (let filtered = filtered_pd data selected_titles;
          selected_rows = filter (\<lambda>r. section_label_pd r \<in> set selected_sections) filtered
      in concat (map (\<lambda>section_label.
           dropna (map section_text
             (filter (\<lambda>r. section_label_pd r = section_label) selected_rows)))
           selected_sections))"

subsection \<open>Without pandas\<close>

text \<open>A value inside an f-string: \<open>None\<close> is printed as \<open>None\<close>.\<close>

definition format_value :: "pystr option \<Rightarrow> pystr" where
  "format_value v = (case v of None \<Rightarrow> u ''None'' | Some s \<Rightarrow> s)"

definition section_label_csv :: "row \<Rightarrow> pystr" where
  "section_label_csv r = format_value (title r) @ label_sep @ format_value (section_title r)"

definition titles_csv :: "row list \<Rightarrow> pystr list" where
  "titles_csv data = sort (remdups (dropna (map title (filter (\<lambda>r. truthy (title r)) data))))"

definition filtered_csv :: "row list \<Rightarrow> pystr list \<Rightarrow> row list" where
  "filtered_csv data selected_titles = filter (\<lambda>r. isin (title r) selected_titles) data"

definition section_labels_csv :: "row list \<Rightarrow> pystr list \<Rightarrow> pystr list" where
  "section_labels_csv data selected_titles =
     sort (remdups (map section_label_csv
       (filter (\<lambda>r. truthy (title r) \<and> truthy (section_title r))
          (filtered_csv data selected_titles))))"

definition section_text_output_csv :: "row list \<Rightarrow> pystr list \<Rightarrow> pystr list \<Rightarrow> pystr list" where
  "section_text_output_csv data selected_titles selected_sections =
     (let filtered = filtered_csv data selected_titles
      in concat (map (\<lambda>section_label.
           dropna (map section_text
             (filter (\<lambda>r. truthy (section_text r) \<and> section_label_csv r = section_label)
                filtered)))
           selected_sections))"

subsection \<open>Both\<close>

definition titles :: "dataset \<Rightarrow> pystr list" where
  "titles data = (case data of DataFrame df \<Rightarrow> titles_pd df | RowList rows \<Rightarrow> titles_csv rows)"

definition section_labels :: "dataset \<Rightarrow> pystr list \<Rightarrow> pystr list" where
  "section_labels data selected_titles =
     (case data of
        DataFrame df \<Rightarrow> section_labels_pd df selected_titles
      | RowList rows \<Rightarrow> section_labels_csv rows selected_titles)"

definition section_text_output :: "dataset \<Rightarrow> pystr list \<Rightarrow> pystr list \<Rightarrow> pystr list" where
  "section_text_output data selected_titles selected_sections =
     (case data of
        DataFrame df \<Rightarrow> section_text_output_pd df selected_titles selected_sections
      | RowList rows \<Rightarrow> section_text_output_csv rows selected_titles selected_sections)"

definition msg_no_data :: pystr where
  "msg_no_data = u ''internetmedicin data kunde inte hittas i projektmappen.''"

definition msg_pick_sections :: pystr where
  "msg_pick_sections =
     u ''V'' @ [0xE4] @ u ''lj ett eller flera avsnitt f'' @ [0xF6] @ u ''r att visa text.''"

text \<open>
  The part of the script between loading the data and the button: the texts of the
  selected sections and what is shown on the way. The test \<open>pd is not None and
  hasattr(data, "columns")\<close> holds exactly for a \<open>DataFrame\<close>.
\<close>

definition select_content :: "dataset option \<Rightarrow> widgets \<Rightarrow> pystr list \<times> event list" where
  "select_content data w =
     (case data of
        None \<Rightarrow> ([], [StError msg_no_data])
      | Some d \<Rightarrow>
          (let selected_titles = titel_picks w;
               selected_sections = avsnitt_picks w;
               widgets_shown = [StMultiselect (u ''Titel'') (titles d),
                                StMultiselect (u ''Avsnitt'') (section_labels d selected_titles)]
           in if selected_sections \<noteq> []
              then (section_text_output d selected_titles selected_sections, widgets_shown)
              else ([], widgets_shown @ [StInfo msg_pick_sections])))"

section \<open>The button\<close>

definition blank_line :: pystr where
  "blank_line = [0x0A, 0x0A]"

definition msg_links_failed :: pystr where
  "msg_links_failed = u ''Vissa l'' @ [0xE4] @ u ''nkar kunde inte skrapas.''"

definition msg_select_section :: pystr where
  "msg_select_section =
     u ''V'' @ [0xE4] @ u ''lj minst ett avsnitt f'' @ [0xF6] @ u ''r att skapa quiz.''"

definition default_focus :: pystr where
  "default_focus = u ''allm'' @ [0xE4] @ u ''n f'' @ [0xF6] @ u ''rst'' @ [0xE5] @ u ''else''"

text \<open>\<open>links\<close>: the stripped non-blank lines of the text area.\<close>

definition links_of :: "pystr \<Rightarrow> pystr list" where
  "links_of text = map strip (filter (\<lambda>link. strip link \<noteq> []) (splitlines text))"

text \<open>\<open>[item["text"] for item in scraped if "text" in item]\<close>.\<close>

definition texts_of :: "fetch_result list \<Rightarrow> pystr list" where
  "texts_of scraped = List.map_filter (\<lambda>item. item ''text'') scraped"

text \<open>
  The block \<open>if links:\<close>. It gives the value of \<open>article_text\<close> after it, the value that
  \<open>scraped_texts if links else ""\<close> has later, and what it showed and called; an exception
  leaving \<open>scrape_links\<close> would end the run.
\<close>

definition scrape_step ::
  "'soup env \<Rightarrow> pystr \<Rightarrow> pystr list
     \<Rightarrow> py_exception + (pystr \<times> link_text_value \<times> event list)" where
  "scrape_step env article_text links =
     (if links \<noteq> [] then
        (case scrape_links env links of
           Inl exc \<Rightarrow> Inl exc
         | Inr scraped \<Rightarrow>
             (let scraped_texts = texts_of scraped;
                  article_text' = strip (join blank_line ([article_text] @ scraped_texts));
                  scrape_errors = filter (\<lambda>item. item ''error'' \<noteq> None) scraped
              in Inr (article_text', LinkList scraped_texts,
                      CallScrapeLinks links #
                      (if scrape_errors \<noteq> [] then [StWarning msg_links_failed] else []))))
      else Inr (article_text, LinkStr [], []))"

text \<open>The block \<open>if not article_text: ... else: try: ... except Exception\<close>.\<close>

definition quiz_step :: "'soup env \<Rightarrow> widgets \<Rightarrow> pystr \<Rightarrow> link_text_value \<Rightarrow> event list" where
  "quiz_step env w article_text link_text_arg =
     (if article_text = [] then [StError msg_select_section]
      else
        (let focus_arg = (if prompt_text w \<noteq> [] then prompt_text w else default_focus);
             inputs = \<lparr>article = article_text, questions = questions_slider w,
                       focus = focus_arg, lakemedel = lakemedel_text w,
                       link_text = link_text_arg\<rparr>
         in case create_quiz env article_text focus_arg (questions_slider w)
                   (lakemedel_text w) link_text_arg of
              (Inr quiz_json, calls) \<Rightarrow>
                CallCreateQuiz inputs # calls @ [StDivider, StMarkdown quiz_json]
            | (Inl exc, calls) \<Rightarrow>
                CallCreateQuiz inputs # calls @ [StError (str_exc exc)]))"

text \<open>The first line of the handler: the selected texts joined by a blank line, trimmed.\<close>

definition article_text_of :: "pystr list \<Rightarrow> pystr" where
  "article_text_of section_texts = strip (join blank_line section_texts)"

definition generate_quiz_handler ::
  "'soup env \<Rightarrow> widgets \<Rightarrow> pystr list \<Rightarrow> py_exception + event list" where
  "generate_quiz_handler env w section_texts =
     (let article_text = article_text_of section_texts;
          links = links_of (links_text w)
      in case scrape_step env article_text links of
           Inl exc \<Rightarrow> Inl exc
         | Inr (article_text', link_text_arg, shown) \<Rightarrow>
             Inr (shown @ quiz_step env w article_text' link_text_arg))"

text \<open>One run of the script.\<close>

definition script :: "'soup env \<Rightarrow> widgets \<Rightarrow> py_exception + event list" where
  "script env w =
     (let data = load_treatments_data env;
          (section_texts, shown) = select_content data w
      in if generate_quiz w then
           (case generate_quiz_handler env w section_texts of
              Inl exc \<Rightarrow> Inl exc
            | Inr shown' \<Rightarrow> Inr (shown @ shown'))
         else Inr shown)"

section \<open>Definitions for the statements and proofs\<close>

text \<open>
  Cleaning a text as the specification words it: every run of whitespace becomes one
  space, then the text is trimmed.
\<close>

function collapse_runs :: "pystr \<Rightarrow> pystr" where
  "collapse_runs [] = []"
| "collapse_runs (c # cs) =
     (if isspace c then 0x20 # collapse_runs (dropWhile isspace cs) else c # collapse_runs cs)"
  by pat_completeness auto

termination
  by (relation "measure length") (auto simp: less_Suc_eq_le length_dropWhile_le)

definition spec_clean_text :: "pystr \<Rightarrow> pystr" where
  "spec_clean_text s = strip (collapse_runs s)"

text \<open>Whitespace removed at the right end only.\<close>

definition rstrip :: "pystr \<Rightarrow> pystr" where
  "rstrip s = rev (dropWhile isspace (rev s))"

text \<open>A text that neither starts nor ends with whitespace.\<close>

definition trimmed :: "pystr \<Rightarrow> bool" where
  "trimmed t \<longleftrightarrow> t = [] \<or> (\<not> isspace (hd t) \<and> \<not> isspace (last t))"

text \<open>The result that one pass of the loop of \<open>scrape_links\<close> appends for a link.\<close>

definition scrape_item :: "'soup env \<Rightarrow> pystr \<Rightarrow> fetch_result" where
  "scrape_item env link =
     (case try_except (scrape_try env [] link)
             (\<lambda>exc. Inr [[''url'' \<mapsto> link, ''error'' \<mapsto> str_exc exc]]) of
        Inr [item] \<Rightarrow> item
      | _ \<Rightarrow> Map.empty)"

text \<open>
  \<open>pd.read_csv\<close> reads an empty field as \<open>NaN\<close>: a cell of the \<open>DataFrame\<close> it returns
  is \<open>NaN\<close> or a text that is not empty. The rows of \<open>csv.DictReader\<close> have no such
  property.
\<close>

definition read_csv_frame :: "dataset \<Rightarrow> bool" where
  "read_csv_frame data =
     (case data of
        DataFrame df \<Rightarrow>
          list_all (\<lambda>r. title r \<noteq> Some [] \<and> section_title r \<noteq> Some [] \<and>
                        section_text r \<noteq> Some []) df
      | RowList rows \<Rightarrow> True)"

definition rows_of :: "dataset \<Rightarrow> row list" where
  "rows_of data = (case data of DataFrame df \<Rightarrow> df | RowList rows \<Rightarrow> rows)"

text \<open>
  The texts of the selection as the specification words them: for each selected label, in
  the order listed, every section text of the records whose title is selected, whose
  section title is not empty and whose label \<open>title - section_title\<close> is that label, in
  dataset order; the article text is these texts joined by a blank line and trimmed.
\<close>

definition label_matches :: "pystr list \<Rightarrow> pystr \<Rightarrow> row \<Rightarrow> bool" where
  "label_matches selected_titles label r =
     (case title r of
        None \<Rightarrow> False
      | Some t \<Rightarrow>
          (case section_title r of
             None \<Rightarrow> False
           | Some s \<Rightarrow> t \<in> set selected_titles \<and> s \<noteq> [] \<and> t @ label_sep @ s = label))"

definition spec_section_texts :: "row list \<Rightarrow> pystr list \<Rightarrow> pystr list \<Rightarrow> pystr list" where
  "spec_section_texts rows selected_titles selected_sections =
     concat (map (\<lambda>label.
       dropna (map section_text (filter (label_matches selected_titles label) rows)))
       selected_sections)"

definition spec_article_text :: "row list \<Rightarrow> pystr list \<Rightarrow> pystr list \<Rightarrow> pystr" where
  "spec_article_text rows selected_titles selected_sections =
     strip (join blank_line (spec_section_texts rows selected_titles selected_sections))"

text \<open>The same, with the section texts that are empty left out.\<close>

definition nonempty_section_texts :: "row list \<Rightarrow> pystr list \<Rightarrow> pystr list \<Rightarrow> pystr list" where
  "nonempty_section_texts rows selected_titles selected_sections =
     concat (map (\<lambda>label.
       filter (\<lambda>text. text \<noteq> [])
         (dropna (map section_text (filter (label_matches selected_titles label) rows))))
       selected_sections)"

text \<open>
  Without pandas a record with no section title is compared under the label that prints
  \<open>None\<close> (or nothing) for it. No such record of a selected title has a selected label.
\<close>

definition no_label_clash :: "dataset \<Rightarrow> pystr list \<Rightarrow> pystr list \<Rightarrow> bool" where
  "no_label_clash data selected_titles selected_sections =
     (case data of
        DataFrame df \<Rightarrow> True
      | RowList rows \<Rightarrow>
          list_all (\<lambda>r. \<not> (isin (title r) selected_titles \<and> \<not> truthy (section_title r) \<and>
                            section_label_csv r \<in> set selected_sections)) rows)"

text \<open>
  A secret is absent when the secrets cannot be read (there is no secrets file) or the
  key has no value or an empty one. The exception that \<open>create_quiz\<close> then raises is the
  one of reading the secrets, or else its own \<open>RuntimeError\<close>.
\<close>

definition secret_absent :: "'soup env \<Rightarrow> string \<Rightarrow> bool" where
  "secret_absent env key =
     (case secrets env of Inl exc \<Rightarrow> True | Inr store \<Rightarrow> \<not> truthy (store key))"

definition configuration_error :: "'soup env \<Rightarrow> py_exception" where
  "configuration_error env =
     (case secrets env of Inl exc \<Rightarrow> exc | Inr store \<Rightarrow> RuntimeError secrets_missing)"

text \<open>The events of generation: the call of \<open>create_quiz\<close> and what it calls.\<close>

fun is_generation_event :: "event \<Rightarrow> bool" where
  "is_generation_event (CallCreateQuiz inputs) = True"
| "is_generation_event (NewAzureChatOpenAI llm) = True"
| "is_generation_event (ChainInvoke llm inputs) = True"
| "is_generation_event e = False"

text \<open>The arguments the handler passes to \<open>create_quiz\<close>.\<close>

definition inputs_of :: "widgets \<Rightarrow> pystr \<Rightarrow> link_text_value \<Rightarrow> quiz_inputs" where
  "inputs_of w a lt =
     \<lparr>article = a, questions = questions_slider w,
      focus = (if prompt_text w \<noteq> [] then prompt_text w else default_focus),
      lakemedel = lakemedel_text w, link_text = lt\<rparr>"

text \<open>
  The handler up to the test of \<open>article_text\<close>, in closed form: what \<open>scrape_links\<close>
  returned, what the block \<open>if links:\<close> showed, and the values of \<open>article_text\<close> and of
  \<open>scraped_texts if links else ""\<close> after it.
\<close>

definition scraped_of :: "'soup env \<Rightarrow> widgets \<Rightarrow> fetch_result list" where
  "scraped_of env w = map (scrape_item env) (links_of (links_text w))"

definition scrape_events :: "'soup env \<Rightarrow> widgets \<Rightarrow> event list" where
  "scrape_events env w =
     (if links_of (links_text w) = [] then []
      else CallScrapeLinks (links_of (links_text w)) #
           (if filter (\<lambda>item. item ''error'' \<noteq> None) (scraped_of env w) \<noteq> []
            then [StWarning msg_links_failed] else []))"

definition final_article_text :: "'soup env \<Rightarrow> widgets \<Rightarrow> pystr list \<Rightarrow> pystr" where
  "final_article_text env w section_texts =
     (if links_of (links_text w) = [] then article_text_of section_texts
      else strip (join blank_line
             (article_text_of section_texts # texts_of (scraped_of env w))))"

definition final_link_text :: "'soup env \<Rightarrow> widgets \<Rightarrow> link_text_value" where
  "final_link_text env w =
     (if links_of (links_text w) = [] then LinkStr []
      else LinkList (texts_of (scraped_of env w)))"

section \<open>An example world\<close>

text \<open>
  A world to run the program in. The dataset file exists and pandas is installed; both
  secrets are set; \<open>http://a.test\<close> times out, \<open>http://b.test\<close> and \<open>http://c.test\<close> answer
  with plain text, any other URL is not found; the parser is the identity, which is what
  an HTML parser does on a text without tags; the completion capability answers
  \<open>## Quiz\<close>.
\<close>

definition demo_rows :: "row list" where
  "demo_rows =
     [\<lparr>title = Some (u ''Asthma''), section_title = Some (u ''Treatment''),
        section_text = Some (u ''Use inhaled steroids.'')\<rparr>,
      \<lparr>title = Some (u ''Asthma''), section_title = Some (u ''Diagnosis''),
        section_text = Some (u ''Spirometry.'')\<rparr>,
      \<lparr>title = Some (u ''Asthma''), section_title = None,
        section_text = Some (u ''Overview.'')\<rparr>,
      \<lparr>title = Some (u ''Asthma''), section_title = Some (u ''Treatment''),
        section_text = None\<rparr>,
      \<lparr>title = Some (u ''Asthma''), section_title = Some (u ''Treatment''),
        section_text = Some (u ''Add a beta agonist.'')\<rparr>,
      \<lparr>title = Some (u ''Gout''), section_title = Some (u ''Treatment''),
        section_text = Some (u ''Colchicine.'')\<rparr>]"

definition demo_get :: "pystr \<Rightarrow> py_exception + response" where
  "demo_get link =
     (if link = u ''http://a.test'' then Inl (LibraryError (u ''Read timed out.''))
      else if link = u ''http://b.test''
        then Inr \<lparr>status_code = 200, response_text = [0x0A] @ u '' Hello '' @ [0x0A]\<rparr>
      else if link = u ''http://c.test''
        then Inr \<lparr>status_code = 200, response_text = u ''  Hello '' @ [0x09, 0x0A] @ u ''  world ''\<rparr>
      else Inr \<lparr>status_code = 404, response_text = u ''Not Found''\<rparr>)"

definition demo_env :: "pystr env" where
  "demo_env =
     \<lparr>treatments_csv = Some (u ''title,section_title,section_text''),
      pd_installed = True,
      pd_read_csv = (\<lambda>content. demo_rows),
      csv_DictReader = (\<lambda>content. []),
      secrets = Inr [''JOHAN_AZURE_OPENAI_KEY'' \<mapsto> u ''key'',
                     ''JOHAN_AZURE_OPENAI_ENDPOINT'' \<mapsto> u ''https://quiz.openai.azure.com''],
      requests_get = demo_get,
      http_error_message = (\<lambda>r. u ''404 Client Error''),
      BeautifulSoup = (\<lambda>markup. markup),
      decompose = (\<lambda>tags soup. soup),
      get_text = (\<lambda>separator soup. soup),
      AzureChatOpenAI = (\<lambda>llm. None),
      chain_invoke = (\<lambda>llm inputs. Inr (u ''## Quiz''))\<rparr>"

definition demo_widgets :: widgets where
  "demo_widgets =
     \<lparr>links_text = [], prompt_text = [], questions_slider = 3, lakemedel_text = [],
      titel_picks = [u ''Asthma''], avsnitt_picks = [u ''Asthma - Treatment''],
      generate_quiz = True\<rparr>"

definition demo_llm :: llm_config where
  "demo_llm =
     \<lparr>azure_deployment = u ''gpt-5-chat'', api_version = u ''2024-12-01-preview'',
      azure_endpoint = u ''https://quiz.openai.azure.com'', api_key = u ''key'',
      temperature = 0\<rparr>"

text \<open>Rows as \<open>csv.DictReader\<close> gives them: the second has an empty section text.\<close>

definition demo_dict_rows :: "row list" where
  "demo_dict_rows =
     [\<lparr>title = Some (u ''Asthma''), section_title = Some (u ''Treatment''),
        section_text = Some (u ''Use inhaled steroids.'')\<rparr>,
      \<lparr>title = Some (u ''Asthma''), section_title = Some (u ''Treatment''),
        section_text = Some []\<rparr>,
      \<lparr>title = Some (u ''Asthma''), section_title = Some (u ''Treatment''),
        section_text = Some (u ''Add a beta agonist.'')\<rparr>]"

section \<open>Lemmas on strings\<close>

lemma strip_Nil_iff: "strip s = [] \<longleftrightarrow> (\<forall>c\<in>set s. isspace c)"
proof -
  have "strip s = [] \<longleftrightarrow> dropWhile isspace (rev (dropWhile isspace s)) = []"
    by (simp add: strip_def)
  also have "\<dots> \<longleftrightarrow> (\<forall>c\<in>set (dropWhile isspace s). isspace c)"
    by (simp add: dropWhile_eq_Nil_conv)
  also have "\<dots> \<longleftrightarrow> dropWhile isspace s = []"
  proof
    assume a: "\<forall>c\<in>set (dropWhile isspace s). isspace c"
    show "dropWhile isspace s = []"
    proof (cases "dropWhile isspace s")
      case Nil then show ?thesis .
    next
      case (Cons x xs)
      then have "\<not> isspace x" using hd_dropWhile [of isspace s] by simp
      moreover have "isspace x" using a Cons by simp
      ultimately show ?thesis by simp
    qed
  next
    assume "dropWhile isspace s = []"
    then show "\<forall>c\<in>set (dropWhile isspace s). isspace c" by (simp only: list.set ball_empty)
  qed
  also have "\<dots> \<longleftrightarrow> (\<forall>c\<in>set s. isspace c)"
    by (simp add: dropWhile_eq_Nil_conv)
  finally show ?thesis .
qed

lemma set_join: "set (join sep xs) \<subseteq> set sep \<union> \<Union> (set ` set xs)"
  by (induction sep xs rule: join.induct) auto

lemma concat_splitlines_from:
  "concat (splitlines_from line s) = line @ filter (\<lambda>c. \<not> is_linebreak c) s"
  by (induction line s rule: splitlines_from.induct) (auto simp: is_linebreak_def)

lemma strip_rstrip: "strip s = rstrip (dropWhile isspace s)"
  by (simp add: strip_def rstrip_def)

lemma rstrip_append:
  "rstrip (a @ b) = (if \<forall>c\<in>set b. isspace c then rstrip a else a @ rstrip b)"
  by (simp add: rstrip_def dropWhile_append)

lemma rstrip_id: "s = [] \<or> \<not> isspace (last s) \<Longrightarrow> rstrip s = s"
  by (cases s rule: rev_cases) (auto simp: rstrip_def)

lemma isspace_32: "isspace 0x20"
  by (simp add: isspace_def)

lemma strip_space_Cons: "isspace c \<Longrightarrow> strip (c # s) = strip s"
  by (simp add: strip_def)

lemma set_collapse_runs: "set (collapse_runs s) \<subseteq> insert 0x20 (set s)"
proof (induction s rule: collapse_runs.induct)
  case 1
  show ?case by simp
next
  case (2 c cs)
  show ?case
  proof (cases "isspace c")
    case True
    have "set (dropWhile isspace cs) \<subseteq> set cs"
      by (auto dest: set_dropWhileD)
    with 2(1) [OF True] True show ?thesis by auto
  next
    case False
    with 2(2) [OF False] show ?thesis by auto
  qed
qed

lemma collapse_runs_allspace:
  assumes "\<forall>c\<in>set s. isspace c"
  shows "\<forall>c\<in>set (collapse_runs s). isspace c"
  using assms set_collapse_runs [of s] isspace_32 by auto

lemma collapse_runs_word:
  "collapse_runs s =
     takeWhile (\<lambda>x. \<not> isspace x) s @ collapse_runs (dropWhile (\<lambda>x. \<not> isspace x) s)"
  by (induction s) auto

lemma strip_collapse_runs_drop:
  "strip (collapse_runs s) = strip (collapse_runs (dropWhile isspace s))"
  by (cases s) (auto simp: strip_space_Cons isspace_32)

lemma split_Nil:
  assumes "dropWhile isspace s = []"
  shows "split s = []"
  by (subst split.simps) (simp only: assms list.case)

lemma split_Cons:
  assumes "dropWhile isspace s = c # cs"
  shows "split s =
    (c # takeWhile (\<lambda>x. \<not> isspace x) cs) # split (dropWhile (\<lambda>x. \<not> isspace x) cs)"
  by (subst split.simps) (simp only: assms list.case)

lemma join_Cons: "xs \<noteq> [] \<Longrightarrow> join sep (x # xs) = x @ sep @ join sep xs"
  by (cases xs) simp_all

lemma strip_word_append:
  assumes w: "\<not> isspace c" "\<forall>x\<in>set ws. \<not> isspace x"
  shows "strip ((c # ws) @ X) =
           (if \<forall>x\<in>set X. isspace x then c # ws else (c # ws) @ rstrip X)"
proof -
  have "strip ((c # ws) @ X) = rstrip ((c # ws) @ X)"
    using w by (simp add: strip_rstrip)
  moreover have "rstrip (c # ws) = c # ws"
    using w by (intro rstrip_id) (auto simp: last_in_set dest!: bspec [where x = "last ws"])
  ultimately show ?thesis
    using rstrip_append [of "c # ws" X] by simp
qed

lemma clean_text_refines:
  "join (u '' '') (split s) = spec_clean_text s"
  unfolding spec_clean_text_def
proof (induction s rule: split.induct)
  case (1 s)
  show ?case
  proof (cases "dropWhile isspace s")
    case Nil
    then have "\<forall>c\<in>set s. isspace c"
      by (simp add: dropWhile_eq_Nil_conv)
    then have "strip (collapse_runs s) = []"
      using collapse_runs_allspace by (simp only: strip_Nil_iff)
    then show ?thesis using Nil by (simp add: split_Nil)
  next
    case (Cons c cs)
    define w where "w = takeWhile (\<lambda>x. \<not> isspace x) cs"
    define r where "r = dropWhile (\<lambda>x. \<not> isspace x) cs"
    have c: "\<not> isspace c"
      using hd_dropWhile [of isspace s] Cons by simp
    have w: "\<forall>x\<in>set w. \<not> isspace x"
      by (auto simp: w_def dest: set_takeWhileD)
    have IH: "join (u '' '') (split r) = strip (collapse_runs r)"
      using 1 [OF Cons] by (simp add: r_def)
    have split_s: "split s = (c # w) # split r"
      using split_Cons [OF Cons] by (simp add: w_def r_def)
    have "strip (collapse_runs s) = strip (collapse_runs (c # cs))"
      using strip_collapse_runs_drop [of s] Cons by simp
    also have "collapse_runs (c # cs) = (c # w) @ collapse_runs r"
      using collapse_runs_word [of "c # cs"] c by (simp add: w_def r_def)
    finally have lhs: "strip (collapse_runs s) = strip ((c # w) @ collapse_runs r)" .
    show ?thesis
    proof (cases "dropWhile isspace r")
      case Nil
      then have "\<forall>x\<in>set r. isspace x"
        by (simp add: dropWhile_eq_Nil_conv)
      then have "\<forall>x\<in>set (collapse_runs r). isspace x"
        by (rule collapse_runs_allspace)
      then have "strip ((c # w) @ collapse_runs r) = c # w"
        using strip_word_append [OF c w] by simp
      then show ?thesis
        using lhs split_s split_Nil [OF Nil] by simp
    next
      case d: (Cons d ds)
      have d_ns: "\<not> isspace d"
        using hd_dropWhile [of isspace r] d by simp
      have r_ne: "r \<noteq> []" using d by auto
      then have "isspace (hd r)"
        using hd_dropWhile [of "\<lambda>x. \<not> isspace x" cs] by (simp add: r_def)
      then obtain r0 rs where r: "r = r0 # rs" "isspace r0"
        using r_ne by (cases r) auto
      have drs: "dropWhile isspace rs = d # ds"
        using d r by simp
      define Y where "Y = collapse_runs (d # ds)"
      have Y: "Y = d # collapse_runs ds"
        using d_ns by (simp add: Y_def)
      have X: "collapse_runs r = 0x20 # Y"
        using r drs by (simp add: Y_def)
      have Y_ns: "\<not> (\<forall>x\<in>set Y. isspace x)"
        using Y d_ns by auto
      have "strip (collapse_runs r) = strip Y"
        using X by (simp add: strip_space_Cons isspace_32)
      also have "\<dots> = rstrip Y"
        using Y d_ns by (simp add: strip_rstrip)
      finally have sr: "strip (collapse_runs r) = rstrip Y" .
      have "rstrip (0x20 # Y) = 0x20 # rstrip Y"
        using rstrip_append [of "[0x20]" Y] Y_ns by simp
      moreover have "\<not> (\<forall>x\<in>set (0x20 # Y). isspace x)"
        using Y_ns by simp
      ultimately have "strip ((c # w) @ collapse_runs r) = (c # w) @ 0x20 # rstrip Y"
        using strip_word_append [OF c w, of "0x20 # Y"] X by simp
      moreover have "split r \<noteq> []"
        using split_Cons [OF d] by simp
      then have "join (u '' '') (split s) = (c # w) @ u '' '' @ join (u '' '') (split r)"
        using split_s by (simp add: join_Cons)
      moreover have "u '' '' = [0x20]"
        by (simp add: u_def)
      ultimately show ?thesis
        using lhs IH sr by simp
    qed
  qed
qed

lemma rstrip_prefix: "\<exists>q. s = rstrip s @ q"
proof -
  have "s = rev (takeWhile isspace (rev s) @ dropWhile isspace (rev s))"
    by (simp only: takeWhile_dropWhile_id rev_rev_ident)
  also have "\<dots> = rev (dropWhile isspace (rev s)) @ rev (takeWhile isspace (rev s))"
    by (simp only: rev_append)
  finally have "s = rstrip s @ rev (takeWhile isspace (rev s))"
    by (simp only: rstrip_def)
  then show ?thesis ..
qed

lemma trimmed_strip: "trimmed (strip s)"
proof (cases "strip s = []")
  case True
  then show ?thesis by (simp add: trimmed_def)
next
  case False
  define d where "d = dropWhile isspace s"
  have t: "strip s = rstrip d" by (simp add: strip_rstrip d_def)
  obtain q where q: "d = rstrip d @ q" using rstrip_prefix by blast
  have "d \<noteq> []" using False t by (auto simp: rstrip_def)
  then have "\<not> isspace (hd d)"
    unfolding d_def using hd_dropWhile [of isspace s] by simp
  moreover have "hd d = hd (rstrip d)"
    using q False t by (metis hd_append2)
  moreover have "dropWhile isspace (rev d) \<noteq> []"
    using False t by (simp add: rstrip_def)
  then have "\<not> isspace (hd (dropWhile isspace (rev d)))"
    by (rule hd_dropWhile)
  then have "\<not> isspace (last (rstrip d))"
    using \<open>dropWhile isspace (rev d) \<noteq> []\<close> by (simp add: rstrip_def last_rev)
  ultimately show ?thesis
    using t by (simp add: trimmed_def)
qed

lemma sublist_strip:
  assumes "sublist t s" and "trimmed t"
  shows "sublist t (strip s)"
proof (cases "t = []")
  case True
  then show ?thesis by simp
next
  case False
  with assms(2) have hd: "\<not> isspace (hd t)" and lst: "\<not> isspace (last t)"
    by (auto simp: trimmed_def)
  from assms(1) obtain p q where s: "s = p @ t @ q"
    by (auto simp: sublist_def)
  have t_ns: "\<not> (\<forall>c\<in>set t. isspace c)"
    using False hd by (metis hd_in_set)
  have "dropWhile isspace (t @ q) = t @ q"
    using False hd by (cases t) auto
  then have "\<exists>p'. dropWhile isspace s = p' @ t @ q"
    unfolding s by (cases "\<forall>c\<in>set p. isspace c") (auto simp: dropWhile_append)
  then obtain p' where d: "dropWhile isspace s = p' @ t @ q" ..
  have rt: "rstrip t = t"
    using lst by (simp add: rstrip_id)
  have "rstrip ((p' @ t) @ q) = p' @ t @ rstrip q \<or> rstrip ((p' @ t) @ q) = p' @ t"
    using t_ns rt rstrip_append [of "p' @ t" q] rstrip_append [of p' t] by auto
  then have "\<exists>q'. strip s = p' @ t @ q'"
    using d by (auto simp: strip_rstrip)
  then show ?thesis
    by (auto simp: sublist_def)
qed

lemma sublist_join: "t \<in> set ts \<Longrightarrow> sublist t (join sep ts)"
proof (induction sep ts rule: join.induct)
  case (3 sep x y ys)
  show ?case
  proof (cases "t = x")
    case True
    then show ?thesis by (auto simp: sublist_def intro: exI [of _ "[]"])
  next
    case False
    with 3 have "sublist t (join sep (y # ys))" by simp
    then obtain p q where "join sep (y # ys) = p @ t @ q"
      by (auto simp: sublist_def)
    then have "join sep (x # y # ys) = (x @ sep @ p) @ t @ q"
      by simp
    then show ?thesis
      unfolding sublist_def by blast
  qed
qed simp_all

section \<open>Lemmas on scraping\<close>

lemma scrape_try_cases:
  "(\<exists>exc. scrape_try env acc link = Inl exc \<and> (\<forall>acc'. scrape_try env acc' link = Inl exc)) \<or>
   (\<exists>text. \<forall>acc'. scrape_try env acc' link =
        Inr (acc' @ [[''url'' \<mapsto> link, ''text'' \<mapsto> text]]))"
  by (auto simp: scrape_try_def Let_def split: sum.splits)

lemma scrape_body:
  "try_except (scrape_try env acc link)
      (\<lambda>exc. Inr (acc @ [[''url'' \<mapsto> link, ''error'' \<mapsto> str_exc exc]]))
   = Inr (acc @ [scrape_item env link])"
  using scrape_try_cases [of env acc link]
  by (auto simp: try_except_def scrape_item_def)

lemma scrape_loop_eq:
  "scrape_loop env acc links = Inr (acc @ map (scrape_item env) links)"
  by (induction links arbitrary: acc) (simp_all add: scrape_body)

lemma scrape_links_eq: "scrape_links env links = Inr (map (scrape_item env) links)"
  by (simp add: scrape_links_def scrape_loop_eq)

lemma scrape_item_shape:
  "scrape_item env link ''url'' = Some link \<and>
   ((\<exists>t. scrape_item env link ''text'' = Some t \<and> scrape_item env link ''error'' = None) \<or>
    (\<exists>e. scrape_item env link ''error'' = Some e \<and> scrape_item env link ''text'' = None))"
  using scrape_try_cases [of env "[]" link]
  by (auto simp: try_except_def scrape_item_def)

lemma scrape_item_success:
  assumes "requests_get env link = Inr r"
    and "\<not> (400 \<le> status_code r \<and> status_code r < 600)"
  shows "scrape_item env link =
    [''url'' \<mapsto> link,
     ''text'' \<mapsto> spec_clean_text (get_text env (u '' '')
        (decompose env [''script'', ''style'', ''noscript''] (BeautifulSoup env (response_text r))))]"
proof -
  have "raise_for_status env r = Inr ()"
    using assms(2) by (auto simp: raise_for_status_def)
  then show ?thesis
    using assms(1)
    by (simp add: scrape_item_def try_except_def scrape_try_def clean_text_refines)
qed

lemma scrape_item_text_trimmed:
  "scrape_item env link ''text'' = Some t \<Longrightarrow> trimmed t"
  using trimmed_strip
  by (auto simp: scrape_item_def try_except_def scrape_try_def Let_def clean_text_refines
      spec_clean_text_def split: sum.splits)

section \<open>Lemmas on the handler\<close>

lemma create_quiz_missing:
  assumes "secret_absent env ''JOHAN_AZURE_OPENAI_KEY'' \<or>
           secret_absent env ''JOHAN_AZURE_OPENAI_ENDPOINT''"
  shows "create_quiz env a f q l lt = (Inl (configuration_error env), [])"
proof (cases "secrets env")
  case (Inl exc)
  then show ?thesis
    by (simp add: create_quiz_def secrets_get_def configuration_error_def)
next
  case (Inr store)
  with assms have "\<not> truthy (store ''JOHAN_AZURE_OPENAI_KEY'') \<or>
      \<not> truthy (store ''JOHAN_AZURE_OPENAI_ENDPOINT'')"
    by (simp add: secret_absent_def)
  with Inr show ?thesis
    by (auto simp: create_quiz_def secrets_get_def secrets_get_default_def
        configuration_error_def)
qed

lemma create_quiz_events:
  assumes "e \<in> set (snd (create_quiz env a f q l lt))"
  shows "(\<exists>llm. e = NewAzureChatOpenAI llm) \<or>
         (\<exists>llm. e = ChainInvoke llm \<lparr>article = a, questions = q, focus = f,
                                       lakemedel = l, link_text = lt\<rparr>)"
  using assms
  by (auto simp: create_quiz_def Let_def split: if_splits option.splits sum.splits)

lemma quiz_step_empty: "quiz_step env w [] lt = [StError msg_select_section]"
  by (simp add: quiz_step_def)

lemma quiz_step_nonempty:
  assumes "a \<noteq> []"
  shows "\<exists>res calls. create_quiz env a (focus (inputs_of w a lt)) (questions_slider w)
            (lakemedel_text w) lt = (res, calls) \<and>
          quiz_step env w a lt = CallCreateQuiz (inputs_of w a lt) # calls @
            (case res of Inr quiz_json \<Rightarrow> [StDivider, StMarkdown quiz_json]
             | Inl exc \<Rightarrow> [StError (str_exc exc)])"
  using assms
  by (cases "create_quiz env a (focus (inputs_of w a lt)) (questions_slider w)
            (lakemedel_text w) lt")
     (auto simp: quiz_step_def inputs_of_def Let_def split: sum.splits)

lemma quiz_step_inputs:
  assumes "e \<in> set (quiz_step env w a lt)"
    and "e = CallCreateQuiz inputs \<or> e = ChainInvoke llm inputs"
  shows "inputs = inputs_of w a lt"
proof (cases "a = []")
  case True
  with assms show ?thesis by (auto simp: quiz_step_empty)
next
  case False
  from quiz_step_nonempty [OF False, of env w lt] obtain res calls where
    c: "create_quiz env a (focus (inputs_of w a lt)) (questions_slider w)
            (lakemedel_text w) lt = (res, calls)"
    and q: "quiz_step env w a lt = CallCreateQuiz (inputs_of w a lt) # calls @
            (case res of Inr quiz_json \<Rightarrow> [StDivider, StMarkdown quiz_json]
             | Inl exc \<Rightarrow> [StError (str_exc exc)])"
    by blast
  have calls: "\<And>e. e \<in> set calls \<Longrightarrow> (\<exists>llm. e = NewAzureChatOpenAI llm) \<or>
         (\<exists>llm. e = ChainInvoke llm (inputs_of w a lt))"
    using create_quiz_events [of _ env a "focus (inputs_of w a lt)" "questions_slider w"
        "lakemedel_text w" lt] c
    by (simp add: inputs_of_def)
  from assms q show ?thesis
    by (auto split: sum.splits dest: calls)
qed

lemma quiz_step_no_scrape: "CallScrapeLinks links \<notin> set (quiz_step env w a lt)"
proof (cases "a = []")
  case True
  then show ?thesis by (simp add: quiz_step_empty)
next
  case False
  from quiz_step_nonempty [OF False, of env w lt] obtain res calls where
    c: "create_quiz env a (focus (inputs_of w a lt)) (questions_slider w)
            (lakemedel_text w) lt = (res, calls)"
    and q: "quiz_step env w a lt = CallCreateQuiz (inputs_of w a lt) # calls @
            (case res of Inr quiz_json \<Rightarrow> [StDivider, StMarkdown quiz_json]
             | Inl exc \<Rightarrow> [StError (str_exc exc)])"
    by blast
  have "CallScrapeLinks links \<notin> set calls"
    using create_quiz_events [of "CallScrapeLinks links" env a "focus (inputs_of w a lt)"
        "questions_slider w" "lakemedel_text w" lt] c
    by auto
  with q show ?thesis
    by (auto split: sum.splits)
qed

lemma handler_no_links:
  assumes "links_of (links_text w) = []"
  shows "generate_quiz_handler env w st =
           Inr (quiz_step env w (article_text_of st) (LinkStr []))"
  using assms by (simp add: generate_quiz_handler_def scrape_step_def)

lemma handler_links:
  assumes "links_of (links_text w) \<noteq> []"
    and "scrape_links env (links_of (links_text w)) = Inr scraped"
  shows "generate_quiz_handler env w st =
           Inr (CallScrapeLinks (links_of (links_text w)) #
                (if filter (\<lambda>item. item ''error'' \<noteq> None) scraped \<noteq> []
                 then [StWarning msg_links_failed] else []) @
                quiz_step env w
                  (strip (join blank_line (article_text_of st # texts_of scraped)))
                  (LinkList (texts_of scraped)))"
  using assms by (simp add: generate_quiz_handler_def scrape_step_def Let_def)

lemma handler_eq:
  "generate_quiz_handler env w section_texts =
     Inr (scrape_events env w @
          quiz_step env w (final_article_text env w section_texts) (final_link_text env w))"
proof (cases "links_of (links_text w) = []")
  case True
  then show ?thesis
    by (simp add: handler_no_links scrape_events_def final_article_text_def
        final_link_text_def)
next
  case False
  have "scrape_links env (links_of (links_text w)) = Inr (scraped_of env w)"
    by (simp add: scrape_links_eq scraped_of_def)
  from handler_links [OF False this, of section_texts] False show ?thesis
    by (simp add: scrape_events_def final_article_text_def final_link_text_def)
qed

lemma scrape_events_kinds:
  "e \<in> set (scrape_events env w) \<Longrightarrow>
     e = CallScrapeLinks (links_of (links_text w)) \<or> e = StWarning msg_links_failed"
  by (auto simp: scrape_events_def split: if_splits)

lemma quiz_step_generates:
  "a \<noteq> [] \<Longrightarrow> CallCreateQuiz (inputs_of w a lt) \<in> set (quiz_step env w a lt)"
  using quiz_step_nonempty [of a env w lt] by auto

lemma strip_join_Nil:
  assumes "\<forall>t\<in>set ts. \<forall>c\<in>set t. isspace c"
  shows "strip (join blank_line ts) = []"
proof -
  have "\<forall>c\<in>set blank_line. isspace c"
    by (simp add: blank_line_def isspace_def)
  with assms have "\<forall>c\<in>set (join blank_line ts). isspace c"
    using set_join [of blank_line ts] by blast
  then show ?thesis by (simp only: strip_Nil_iff)
qed

lemma list_all_isspace_strip: "list_all isspace s \<longleftrightarrow> strip s = []"
  by (simp add: strip_Nil_iff list_all_iff)

lemma links_of_Nil_iff:
  "links_of text = [] \<longleftrightarrow> \<not> list_ex (\<lambda>line. \<not> list_all isspace line) (splitlines text)"
  by (auto simp: links_of_def list_all_isspace_strip filter_empty_conv list_ex_iff)

section \<open>Lemmas on the selection\<close>

lemma set_dropna: "set (dropna vs) = {s. Some s \<in> set vs}"
  by (induction vs) (auto simp: dropna_def List.map_filter_simps split: option.splits)

lemma titles_csv_nonempty: "t \<in> set (titles_csv rows) \<Longrightarrow> t \<noteq> []"
proof -
  assume "t \<in> set (titles_csv rows)"
  then have "Some t \<in> title ` {r \<in> set rows. truthy (title r)}"
    by (simp add: titles_csv_def set_dropna)
  then obtain r :: row where "truthy (title r)" "Some t = title r"
    by blast
  then show ?thesis by (cases "title r") (auto simp: truthy_def)
qed

lemma set_section_labels_pd:
  assumes "list_all (\<lambda>r. title r \<noteq> Some [] \<and> section_title r \<noteq> Some [] \<and>
                        section_text r \<noteq> Some []) df"
  shows "set (section_labels_pd df sel) =
    {t @ label_sep @ s | t s. t \<in> set sel \<and> s \<noteq> [] \<and>
       (\<exists>r\<in>set df. title r = Some t \<and> section_title r = Some s)}"
proof -
  have wf: "\<And>r. r \<in> set df \<Longrightarrow> section_title r \<noteq> Some []"
    using assms by (simp add: list_all_iff)
  show ?thesis
  proof (intro set_eqI iffI)
    fix l
    assume "l \<in> set (section_labels_pd df sel)"
    then obtain r where r: "r \<in> set df" "isin (title r) sel" "title r \<noteq> None"
      "section_title r \<noteq> None" "l = section_label_pd r"
      by (auto simp: section_labels_pd_def filtered_pd_def)
    then obtain t s where ts: "title r = Some t" "section_title r = Some s"
      by auto
    with r wf [of r] have "t \<in> set sel" "s \<noteq> []" "l = t @ label_sep @ s"
      by (auto simp: isin_def section_label_pd_def astype_str_def)
    with r(1) ts show "l \<in> {t @ label_sep @ s | t s. t \<in> set sel \<and> s \<noteq> [] \<and>
       (\<exists>r\<in>set df. title r = Some t \<and> section_title r = Some s)}"
      by blast
  next
    fix l
    assume "l \<in> {t @ label_sep @ s | t s. t \<in> set sel \<and> s \<noteq> [] \<and>
       (\<exists>r\<in>set df. title r = Some t \<and> section_title r = Some s)}"
    then obtain t s r where "l = t @ label_sep @ s" "t \<in> set sel" "r \<in> set df"
      "title r = Some t" "section_title r = Some s"
      by blast
    then have "r \<in> set (filtered_pd df sel)" "section_label_pd r = l"
      by (auto simp: filtered_pd_def isin_def section_label_pd_def astype_str_def)
    then show "l \<in> set (section_labels_pd df sel)"
      by (auto simp: section_labels_pd_def)
  qed
qed

lemma set_section_labels_csv:
  assumes "set sel \<subseteq> set (titles_csv rows)"
  shows "set (section_labels_csv rows sel) =
    {t @ label_sep @ s | t s. t \<in> set sel \<and> s \<noteq> [] \<and>
       (\<exists>r\<in>set rows. title r = Some t \<and> section_title r = Some s)}"
proof (intro set_eqI iffI)
  fix l
  assume "l \<in> set (section_labels_csv rows sel)"
  then obtain r where r: "r \<in> set rows" "isin (title r) sel" "truthy (title r)"
    "truthy (section_title r)" "l = section_label_csv r"
    by (auto simp: section_labels_csv_def filtered_csv_def)
  then obtain t s where ts: "title r = Some t" "section_title r = Some s"
    by (auto simp: truthy_def split: option.splits)
  with r have "t \<in> set sel" "s \<noteq> []" "l = t @ label_sep @ s"
    by (auto simp: isin_def truthy_def section_label_csv_def format_value_def)
  with r(1) ts show "l \<in> {t @ label_sep @ s | t s. t \<in> set sel \<and> s \<noteq> [] \<and>
       (\<exists>r\<in>set rows. title r = Some t \<and> section_title r = Some s)}"
    by blast
next
  fix l
  assume "l \<in> {t @ label_sep @ s | t s. t \<in> set sel \<and> s \<noteq> [] \<and>
       (\<exists>r\<in>set rows. title r = Some t \<and> section_title r = Some s)}"
  then obtain t s r where l: "l = t @ label_sep @ s" "t \<in> set sel" "s \<noteq> []" "r \<in> set rows"
      "title r = Some t" "section_title r = Some s"
    by blast
  then have "t \<noteq> []"
    using assms titles_csv_nonempty by blast
  with l have "r \<in> set (filter (\<lambda>r. truthy (title r) \<and> truthy (section_title r))
          (filtered_csv rows sel))" "section_label_csv r = l"
    by (auto simp: filtered_csv_def isin_def truthy_def section_label_csv_def format_value_def)
  then show "l \<in> set (section_labels_csv rows sel)"
    unfolding section_labels_csv_def by (simp only: set_sort set_remdups set_map) blast
qed

lemma texts_csv_label:
  assumes "\<forall>r\<in>set rows. \<not> (isin (title r) sel \<and> \<not> truthy (section_title r) \<and>
             section_label_csv r = l)"
  shows "dropna (map section_text
           (filter (\<lambda>r. truthy (section_text r) \<and> section_label_csv r = l)
              (filtered_csv rows sel))) =
         filter (\<lambda>text. text \<noteq> [])
           (dropna (map section_text (filter (label_matches sel l) rows)))"
  using assms
proof (induction rows)
  case Nil
  show ?case by (simp add: filtered_csv_def dropna_def)
next
  case (Cons r rows)
  then have IH: "dropna (map section_text
           (filter (\<lambda>r. truthy (section_text r) \<and> section_label_csv r = l)
              (filtered_csv rows sel))) =
         filter (\<lambda>text. text \<noteq> [])
           (dropna (map section_text (filter (label_matches sel l) rows)))"
    by simp
  have r: "\<not> (isin (title r) sel \<and> \<not> truthy (section_title r) \<and> section_label_csv r = l)"
    using Cons.prems by simp
  have m: "label_matches sel l r \<longleftrightarrow> isin (title r) sel \<and> section_label_csv r = l"
    using r
    by (auto simp: label_matches_def isin_def truthy_def section_label_csv_def format_value_def
        split: option.splits)
  show ?case
    using IH m
    by (cases "section_text r")
       (auto simp: filtered_csv_def dropna_def List.map_filter_simps truthy_def)
qed

lemma texts_pd_label:
  assumes "list_all (\<lambda>r. title r \<noteq> Some [] \<and> section_title r \<noteq> Some [] \<and>
                        section_text r \<noteq> Some []) df"
    and "l \<in> set sel_s"
  shows "dropna (map section_text
           (filter (\<lambda>r. section_label_pd r = l)
              (filter (\<lambda>r. section_label_pd r \<in> set sel_s) (filtered_pd df sel)))) =
         filter (\<lambda>text. text \<noteq> [])
           (dropna (map section_text (filter (label_matches sel l) df)))"
  using assms(1)
proof (induction df)
  case Nil
  show ?case by (simp add: filtered_pd_def dropna_def)
next
  case (Cons r df)
  then have IH: "dropna (map section_text
           (filter (\<lambda>r. section_label_pd r = l)
              (filter (\<lambda>r. section_label_pd r \<in> set sel_s) (filtered_pd df sel)))) =
         filter (\<lambda>text. text \<noteq> [])
           (dropna (map section_text (filter (label_matches sel l) df)))"
    by simp
  have wf: "section_title r \<noteq> Some []" "section_text r \<noteq> Some []"
    using Cons.prems by simp_all
  have m: "label_matches sel l r \<longleftrightarrow>
      isin (title r) sel \<and> title r \<noteq> None \<and> section_title r \<noteq> None \<and> section_label_pd r = l"
    using wf(1)
    by (auto simp: label_matches_def isin_def section_label_pd_def astype_str_def
        split: option.splits)
  show ?case
    using IH m wf(2) assms(2)
    by (cases "section_text r")
       (auto simp: filtered_pd_def dropna_def List.map_filter_simps)
qed

lemma section_text_output_eq:
  assumes "read_csv_frame data"
    and "no_label_clash data selected_titles selected_sections"
  shows "section_text_output data selected_titles selected_sections =
           nonempty_section_texts (rows_of data) selected_titles selected_sections"
proof (cases data)
  case (DataFrame df)
  then have wf: "list_all (\<lambda>r. title r \<noteq> Some [] \<and> section_title r \<noteq> Some [] \<and>
                        section_text r \<noteq> Some []) df"
    using assms(1) by (simp add: read_csv_frame_def)
  show ?thesis
    unfolding DataFrame section_text_output_def nonempty_section_texts_def rows_of_def
      section_text_output_pd_def Let_def dataset.case
    by (intro arg_cong [where f = concat] map_cong refl texts_pd_label [OF wf])
next
  case (RowList rows)
  then have c: "\<And>l. l \<in> set selected_sections \<Longrightarrow>
      \<forall>r\<in>set rows. \<not> (isin (title r) selected_titles \<and> \<not> truthy (section_title r) \<and>
             section_label_csv r = l)"
    using assms(2) by (auto simp: no_label_clash_def list_all_iff)
  show ?thesis
    unfolding RowList section_text_output_def nonempty_section_texts_def rows_of_def
      section_text_output_csv_def Let_def dataset.case
    by (intro arg_cong [where f = concat] map_cong refl texts_csv_label c)
qed

lemma set_texts_of: "set (texts_of scraped) = {t. \<exists>item\<in>set scraped. item ''text'' = Some t}"
  by (induction scraped) (auto simp: texts_of_def List.map_filter_simps split: option.splits)

section \<open>Runs in the example world\<close>

lemmas demo_defs =
  generate_quiz_handler_def article_text_of_def scrape_step_def links_of_def splitlines_def
  quiz_step_def create_quiz_def demo_env_def demo_widgets_def demo_llm_def demo_get_def
  strip_def isspace_def is_linebreak_def blank_line_def truthy_def secrets_get_def secrets_get_default_def Let_def
  u_def

lemma demo_run:
  "generate_quiz_handler demo_env demo_widgets [u ''Use inhaled steroids.''] =
     Inr [CallCreateQuiz
            \<lparr>article = u ''Use inhaled steroids.'', questions = 3, focus = default_focus,
             lakemedel = [], link_text = LinkStr []\<rparr>,
          NewAzureChatOpenAI demo_llm,
          ChainInvoke demo_llm
            \<lparr>article = u ''Use inhaled steroids.'', questions = 3, focus = default_focus,
             lakemedel = [], link_text = LinkStr []\<rparr>,
          StDivider, StMarkdown (u ''## Quiz'')]"
  by (simp add: demo_defs)

lemma demo_labels:
  "section_labels (DataFrame demo_rows) [u ''Gout'', u ''Asthma''] =
     [u ''Asthma - Diagnosis'', u ''Asthma - Treatment'', u ''Gout - Treatment'']"
  by (simp add: section_labels_def section_labels_pd_def filtered_pd_def demo_rows_def isin_def
      section_label_pd_def astype_str_def label_sep_def u_def)

lemma demo_titles: "titles (DataFrame demo_rows) = [u ''Asthma'', u ''Gout'']"
  by (simp add: titles_def titles_pd_def dropna_def demo_rows_def u_def)

lemma demo_texts_pd:
  "section_text_output (DataFrame demo_rows) [u ''Gout'', u ''Asthma'']
      [u ''Gout - Treatment'', u ''Asthma - Treatment''] =
     [u ''Colchicine.'', u ''Use inhaled steroids.'', u ''Add a beta agonist.'']"
  by (simp add: section_text_output_def section_text_output_pd_def filtered_pd_def
      demo_rows_def isin_def section_label_pd_def astype_str_def label_sep_def dropna_def
      List.map_filter_simps u_def)

lemma demo_texts_csv:
  "section_text_output (RowList demo_dict_rows) [u ''Asthma''] [u ''Asthma - Treatment''] =
     [u ''Use inhaled steroids.'', u ''Add a beta agonist.'']"
  by (simp add: section_text_output_def section_text_output_csv_def filtered_csv_def
      demo_dict_rows_def isin_def section_label_csv_def format_value_def label_sep_def
      dropna_def truthy_def List.map_filter_simps u_def)

lemma demo_labels_csv:
  "section_labels (RowList demo_dict_rows) [u ''Asthma''] = [u ''Asthma - Treatment'']"
  by (simp add: section_labels_def section_labels_csv_def filtered_csv_def
      demo_dict_rows_def isin_def section_label_csv_def format_value_def label_sep_def
      truthy_def u_def)

lemma demo_spec_texts_csv:
  "spec_section_texts demo_dict_rows [u ''Asthma''] [u ''Asthma - Treatment''] =
     [u ''Use inhaled steroids.'', [], u ''Add a beta agonist.'']"
  by (simp add: spec_section_texts_def label_matches_def demo_dict_rows_def label_sep_def
      dropna_def List.map_filter_simps u_def)

text \<open>
  Without pandas, a record that has no section title is compared under the label that
  prints \<open>None\<close> for it, and so its text is taken when a section titled \<open>None\<close> is
  selected; with pandas the record is dropped.
\<close>

lemma missing_section_title_matches_None:
  "section_text_output
      (RowList [\<lparr>title = Some (u ''T''), section_title = Some (u ''None''),
                  section_text = Some (u ''x'')\<rparr>,
                \<lparr>title = Some (u ''T''), section_title = None,
                  section_text = Some (u ''y'')\<rparr>])
      [u ''T''] [u ''T - None''] = [u ''x'', u ''y''] \<and>
   section_text_output
      (DataFrame [\<lparr>title = Some (u ''T''), section_title = Some (u ''None''),
                  section_text = Some (u ''x'')\<rparr>,
                \<lparr>title = Some (u ''T''), section_title = None,
                  section_text = Some (u ''y'')\<rparr>])
      [u ''T''] [u ''T - None''] = [u ''x'']"
  by (simp add: section_text_output_def section_text_output_csv_def filtered_csv_def
      section_text_output_pd_def filtered_pd_def section_label_pd_def astype_str_def
      isin_def section_label_csv_def format_value_def label_sep_def
      dropna_def truthy_def List.map_filter_simps u_def)

lemma demo_run_link:
  "generate_quiz_handler demo_env (demo_widgets\<lparr>links_text := u ''http://b.test''\<rparr>)
      [u ''Use inhaled steroids.''] =
     Inr [CallScrapeLinks [u ''http://b.test''],
          CallCreateQuiz
            \<lparr>article = u ''Use inhaled steroids.'' @ [0x0A, 0x0A] @ u ''Hello'',
             questions = 3, focus = default_focus,
             lakemedel = [], link_text = LinkList [u ''Hello'']\<rparr>,
          NewAzureChatOpenAI demo_llm,
          ChainInvoke demo_llm
            \<lparr>article = u ''Use inhaled steroids.'' @ [0x0A, 0x0A] @ u ''Hello'',
             questions = 3, focus = default_focus,
             lakemedel = [], link_text = LinkList [u ''Hello'']\<rparr>,
          StDivider, StMarkdown (u ''## Quiz'')]"
  by (simp add: demo_defs scrape_links_def try_except_def scrape_try_def raise_for_status_def
      texts_of_def split.simps)

section \<open>The claims\<close>

text \<open>
  C1. Take any selected section texts and any content of the URL text area, and let
  \<open>scraped\<close> be what \<open>scrape_links\<close> returns for its links. If every character of every
  selected text and of every fetched text is whitespace (so that the combined article
  text is empty after trimming), the run of the handler ends with the error that asks to
  select a section, and it contains no call of \<open>create_quiz\<close>, no construction of the
  client and no invocation of the chain.
\<close>

theorem empty_article_is_refused:
  assumes "scrape_links env (links_of (links_text w)) = Inr scraped"
    and "\<forall>t\<in>set section_texts \<union> set (texts_of scraped). \<forall>c\<in>set t. isspace c"
  shows "\<exists>shown. generate_quiz_handler env w section_texts =
             Inr (shown @ [StError msg_select_section]) \<and>
           \<not> list_ex is_generation_event (shown @ [StError msg_select_section])"
proof -
  have scraped: "scraped = scraped_of env w"
    using assms(1) by (simp add: scrape_links_eq scraped_of_def)
  have a0: "article_text_of section_texts = []"
    unfolding article_text_of_def using assms(2) by (intro strip_join_Nil) blast
  have "\<forall>t\<in>set (article_text_of section_texts # texts_of (scraped_of env w)).
          \<forall>c\<in>set t. isspace c"
    using assms(2) a0 scraped by auto
  then have "strip (join blank_line
      (article_text_of section_texts # texts_of (scraped_of env w))) = []"
    by (rule strip_join_Nil)
  with a0 have "final_article_text env w section_texts = []"
    by (simp add: final_article_text_def)
  then have h: "generate_quiz_handler env w section_texts =
      Inr (scrape_events env w @ [StError msg_select_section])"
    by (simp add: handler_eq quiz_step_empty)
  have "\<not> list_ex is_generation_event (scrape_events env w @ [StError msg_select_section])"
    by (auto simp: list_ex_iff dest: scrape_events_kinds)
  with h show ?thesis by blast
qed

theorem empty_article_is_refused_witness:
  "generate_quiz_handler demo_env
      (demo_widgets\<lparr>links_text := u ''http://a.test''\<rparr>) [u '' '', [0x0A]] =
     Inr [CallScrapeLinks [u ''http://a.test''], StWarning msg_links_failed,
          StError msg_select_section] \<and>
   (\<exists>shown. generate_quiz_handler demo_env
      (demo_widgets\<lparr>links_text := u ''http://a.test''\<rparr>) [u '' '', [0x0A]] =
        Inr (shown @ [StError msg_select_section]) \<and>
      \<not> list_ex is_generation_event (shown @ [StError msg_select_section]))"
proof -
  have l: "links_of (links_text (demo_widgets\<lparr>links_text := u ''http://a.test''\<rparr>)) =
      [u ''http://a.test'']"
    by (simp add: demo_defs)
  have s: "scrape_links demo_env
      (links_of (links_text (demo_widgets\<lparr>links_text := u ''http://a.test''\<rparr>))) =
      Inr [[''url'' \<mapsto> u ''http://a.test'', ''error'' \<mapsto> u ''Read timed out.'']]"
    unfolding l
    by (simp add: scrape_links_def try_except_def scrape_try_def demo_env_def demo_get_def u_def)
  have t: "\<forall>t\<in>set [u '' '', [0x0A]] \<union>
      set (texts_of [[''url'' \<mapsto> u ''http://a.test'', ''error'' \<mapsto> u ''Read timed out.'']]).
      \<forall>c\<in>set t. isspace c"
    by (simp add: texts_of_def isspace_def u_def)
  have "generate_quiz_handler demo_env
      (demo_widgets\<lparr>links_text := u ''http://a.test''\<rparr>) [u '' '', [0x0A]] =
     Inr [CallScrapeLinks [u ''http://a.test''], StWarning msg_links_failed,
          StError msg_select_section]"
    using l s
    by (simp add: generate_quiz_handler_def scrape_step_def texts_of_def
        article_text_of_def quiz_step_def strip_def isspace_def
        blank_line_def u_def)
  with empty_article_is_refused [OF s t] show ?thesis by blast
qed

text \<open>
  C2. For every list of URLs, \<open>scrape_links\<close> returns, with no exception leaving it, one
  result per URL in the order of the input. Each result carries its URL under \<open>url\<close>
  and has either a \<open>text\<close> and no \<open>error\<close>, or an \<open>error\<close> and no \<open>text\<close>. The result of
  a URL is the one a batch of that URL alone gives, so a failure of one URL changes nothing
  for the others.
\<close>

theorem scrape_links_one_result_per_url:
  "\<exists>results. scrape_links env links = Inr results \<and> length results = length links \<and>
     list_all2 (\<lambda>link item.
         item ''url'' = Some link \<and>
         ((\<exists>t. item ''text'' = Some t \<and> item ''error'' = None) \<or>
          (\<exists>e. item ''error'' = Some e \<and> item ''text'' = None)) \<and>
         scrape_links env [link] = Inr [item]) links results"
proof -
  have "list_all2 (\<lambda>link item.
         item ''url'' = Some link \<and>
         ((\<exists>t. item ''text'' = Some t \<and> item ''error'' = None) \<or>
          (\<exists>e. item ''error'' = Some e \<and> item ''text'' = None)) \<and>
         scrape_links env [link] = Inr [item]) links (map (scrape_item env) links)"
    unfolding list_all2_map2
    using scrape_item_shape [of env]
    by (intro list_all2_refl) (simp add: scrape_links_eq)
  then show ?thesis
    by (simp add: scrape_links_eq)
qed

theorem scrape_links_one_result_per_url_witness:
  "scrape_links demo_env [u ''http://a.test'', u ''http://b.test''] =
     Inr [[''url'' \<mapsto> u ''http://a.test'', ''error'' \<mapsto> u ''Read timed out.''],
          [''url'' \<mapsto> u ''http://b.test'', ''text'' \<mapsto> u ''Hello'']] \<and>
   (\<exists>results. scrape_links demo_env [u ''http://a.test'', u ''http://b.test''] = Inr results \<and>
      length results = 2)"
proof -
  have "scrape_item demo_env (u ''http://a.test'') =
          [''url'' \<mapsto> u ''http://a.test'', ''error'' \<mapsto> u ''Read timed out.'']"
    by (simp add: scrape_item_def try_except_def scrape_try_def demo_env_def demo_get_def u_def)
  moreover have "requests_get demo_env (u ''http://b.test'') =
      Inr \<lparr>status_code = 200, response_text = [0x0A] @ u '' Hello '' @ [0x0A]\<rparr>"
    by (simp add: demo_env_def demo_get_def u_def)
  then have "scrape_item demo_env (u ''http://b.test'') =
          [''url'' \<mapsto> u ''http://b.test'',
           ''text'' \<mapsto> spec_clean_text ([0x0A] @ u '' Hello '' @ [0x0A])]"
    using scrape_item_success [of demo_env "u ''http://b.test''"
        "\<lparr>status_code = 200, response_text = [0x0A] @ u '' Hello '' @ [0x0A]\<rparr>"]
    by (simp add: demo_env_def)
  moreover have "spec_clean_text ([0x0A] @ u '' Hello '' @ [0x0A]) = u ''Hello''"
    by (simp add: spec_clean_text_def strip_def isspace_def u_def)
  ultimately have "scrape_links demo_env [u ''http://a.test'', u ''http://b.test''] =
     Inr [[''url'' \<mapsto> u ''http://a.test'', ''error'' \<mapsto> u ''Read timed out.''],
          [''url'' \<mapsto> u ''http://b.test'', ''text'' \<mapsto> u ''Hello'']]"
    by (simp add: scrape_links_eq)
  moreover have "\<exists>results.
      scrape_links demo_env [u ''http://a.test'', u ''http://b.test''] = Inr results \<and>
      length results = 2"
    using scrape_links_one_result_per_url [of demo_env "[u ''http://a.test'', u ''http://b.test'']"]
    by auto
  ultimately show ?thesis by blast
qed

text \<open>
  C3. Take any state of the configuration in which the key or the endpoint of the
  completion capability is absent: there is no secrets file to read, or the secret has
  no value or an empty one. Then \<open>create_quiz\<close> raises before it constructs the client
  or invokes the chain, and it makes no call at all: the exception is the one of reading
  the secrets when that fails, and otherwise the \<open>RuntimeError\<close> with the message that
  the secrets are missing. No run of the handler then constructs the client or invokes
  the chain, and a run that calls \<open>create_quiz\<close> ends with \<open>st.error\<close> showing the message
  of that exception, word for word.
\<close>

theorem missing_secrets_raise_before_any_call:
  assumes "secret_absent env ''JOHAN_AZURE_OPENAI_KEY'' \<or>
           secret_absent env ''JOHAN_AZURE_OPENAI_ENDPOINT''"
  shows "create_quiz env a f q l lt =
           (Inl (case secrets env of
                   Inl exc \<Rightarrow> exc
                 | Inr store \<Rightarrow> RuntimeError (u ''Azure OpenAI secrets are missing.'')), []) \<and>
         (\<exists>shown. generate_quiz_handler env w section_texts = Inr shown \<and>
            \<not> list_ex (\<lambda>e. case e of NewAzureChatOpenAI llm \<Rightarrow> True
                                 | ChainInvoke llm inputs \<Rightarrow> True | _ \<Rightarrow> False) shown \<and>
            (list_ex (\<lambda>e. case e of CallCreateQuiz inputs \<Rightarrow> True | _ \<Rightarrow> False) shown \<longrightarrow>
               last shown =
                 StError (case secrets env of
                            Inl exc \<Rightarrow> str_exc exc
                          | Inr store \<Rightarrow> u ''Azure OpenAI secrets are missing.'')))"
proof -
  have c: "\<And>a f q l lt. create_quiz env a f q l lt = (Inl (configuration_error env), [])"
    using assms by (rule create_quiz_missing)
  have e: "configuration_error env =
      (case secrets env of
         Inl exc \<Rightarrow> exc
       | Inr store \<Rightarrow> RuntimeError (u ''Azure OpenAI secrets are missing.''))"
    by (simp add: configuration_error_def secrets_missing_def split: sum.splits)
  have m: "str_exc (configuration_error env) =
      (case secrets env of
         Inl exc \<Rightarrow> str_exc exc
       | Inr store \<Rightarrow> u ''Azure OpenAI secrets are missing.'')"
    by (simp add: configuration_error_def secrets_missing_def split: sum.splits)
  define article where "article = final_article_text env w section_texts"
  define shown where "shown = scrape_events env w @
      quiz_step env w article (final_link_text env w)"
  have h: "generate_quiz_handler env w section_texts = Inr shown"
    by (simp add: handler_eq shown_def article_def)
  have q: "quiz_step env w article (final_link_text env w) =
      (if article = [] then [StError msg_select_section]
       else [CallCreateQuiz (inputs_of w article (final_link_text env w)),
             StError (str_exc (configuration_error env))])"
    using c quiz_step_nonempty [of article env w "final_link_text env w"]
    by (auto simp: quiz_step_empty)
  have 1: "\<not> list_ex (\<lambda>e. case e of NewAzureChatOpenAI llm \<Rightarrow> True
                                 | ChainInvoke llm inputs \<Rightarrow> True | _ \<Rightarrow> False) shown"
    unfolding shown_def q
    by (auto simp: list_ex_iff dest: scrape_events_kinds)
  have 2: "list_ex (\<lambda>e. case e of CallCreateQuiz inputs \<Rightarrow> True | _ \<Rightarrow> False) shown \<longrightarrow>
               last shown = StError (str_exc (configuration_error env))"
    unfolding shown_def q
    by (auto simp: list_ex_iff dest: scrape_events_kinds)
  have 3: "create_quiz env a f q l lt =
           (Inl (case secrets env of
                   Inl exc \<Rightarrow> exc
                 | Inr store \<Rightarrow> RuntimeError (u ''Azure OpenAI secrets are missing.'')), [])"
    using c [of a f q l lt] by (simp only: e)
  have 4: "list_ex (\<lambda>e. case e of CallCreateQuiz inputs \<Rightarrow> True | _ \<Rightarrow> False) shown \<longrightarrow>
               last shown =
                 StError (case secrets env of
                            Inl exc \<Rightarrow> str_exc exc
                          | Inr store \<Rightarrow> u ''Azure OpenAI secrets are missing.'')"
    using 2 by (simp only: m)
  from 3 h 1 4 show ?thesis
    by blast
qed

theorem missing_secrets_raise_before_any_call_witness:
  "create_quiz (demo_env\<lparr>secrets := Inr [''JOHAN_AZURE_OPENAI_KEY'' \<mapsto> u ''key'']\<rparr>)
      (u ''Use inhaled steroids.'') (u ''dosing'') 3 [] (LinkStr []) =
     (Inl (RuntimeError (u ''Azure OpenAI secrets are missing.'')), []) \<and>
   generate_quiz_handler
      (demo_env\<lparr>secrets := Inr [''JOHAN_AZURE_OPENAI_KEY'' \<mapsto> u ''key'']\<rparr>)
      demo_widgets [u ''Use inhaled steroids.''] =
     Inr [CallCreateQuiz
            \<lparr>article = u ''Use inhaled steroids.'', questions = 3, focus = default_focus,
             lakemedel = [], link_text = LinkStr []\<rparr>,
          StError (u ''Azure OpenAI secrets are missing.'')] \<and>
   create_quiz (demo_env\<lparr>secrets := Inl (LibraryError (u ''No secrets found.''))\<rparr>)
      (u ''Use inhaled steroids.'') (u ''dosing'') 3 [] (LinkStr []) =
     (Inl (LibraryError (u ''No secrets found.'')), []) \<and>
   generate_quiz_handler
      (demo_env\<lparr>secrets := Inl (LibraryError (u ''No secrets found.''))\<rparr>)
      demo_widgets [u ''Use inhaled steroids.''] =
     Inr [CallCreateQuiz
            \<lparr>article = u ''Use inhaled steroids.'', questions = 3, focus = default_focus,
             lakemedel = [], link_text = LinkStr []\<rparr>,
          StError (u ''No secrets found.'')]"
proof -
  have m1: "secret_absent (demo_env\<lparr>secrets := Inr [''JOHAN_AZURE_OPENAI_KEY'' \<mapsto> u ''key'']\<rparr>)
        ''JOHAN_AZURE_OPENAI_KEY'' \<or>
      secret_absent (demo_env\<lparr>secrets := Inr [''JOHAN_AZURE_OPENAI_KEY'' \<mapsto> u ''key'']\<rparr>)
        ''JOHAN_AZURE_OPENAI_ENDPOINT''"
    by (simp add: secret_absent_def truthy_def)
  have m2: "secret_absent (demo_env\<lparr>secrets := Inl (LibraryError (u ''No secrets found.''))\<rparr>)
        ''JOHAN_AZURE_OPENAI_KEY'' \<or>
      secret_absent (demo_env\<lparr>secrets := Inl (LibraryError (u ''No secrets found.''))\<rparr>)
        ''JOHAN_AZURE_OPENAI_ENDPOINT''"
    by (simp add: secret_absent_def)
  have h1: "generate_quiz_handler
      (demo_env\<lparr>secrets := Inr [''JOHAN_AZURE_OPENAI_KEY'' \<mapsto> u ''key'']\<rparr>)
      demo_widgets [u ''Use inhaled steroids.''] =
     Inr [CallCreateQuiz
            \<lparr>article = u ''Use inhaled steroids.'', questions = 3, focus = default_focus,
             lakemedel = [], link_text = LinkStr []\<rparr>,
          StError (u ''Azure OpenAI secrets are missing.'')]"
    by (simp add: demo_defs secrets_missing_def)
  have h2: "generate_quiz_handler
      (demo_env\<lparr>secrets := Inl (LibraryError (u ''No secrets found.''))\<rparr>)
      demo_widgets [u ''Use inhaled steroids.''] =
     Inr [CallCreateQuiz
            \<lparr>article = u ''Use inhaled steroids.'', questions = 3, focus = default_focus,
             lakemedel = [], link_text = LinkStr []\<rparr>,
          StError (u ''No secrets found.'')]"
    by (simp add: demo_defs)
  from missing_secrets_raise_before_any_call [OF m1] missing_secrets_raise_before_any_call [OF m2]
    h1 h2 show ?thesis
    by simp
qed

text \<open>
  C4, as amended. For every dataset (with pandas, a \<open>DataFrame\<close> as \<open>read_csv\<close> returns it)
  and every list of selected labels taken from the labels offered, the texts gathered
  are, for each selected label in the order listed, the section texts that are present
  and not empty of the records whose title is selected, whose section title is not empty
  and whose label is that label, in dataset order, and nothing else; the article text is
  these texts joined by a blank line and trimmed. Without pandas this is stated for
  selections in which no record without a section title is printed to a selected label.
\<close>

theorem article_text_of_selected_sections:
  assumes "read_csv_frame data"
    and "set selected_sections \<subseteq> set (section_labels data selected_titles)"
    and "no_label_clash data selected_titles selected_sections"
  shows "section_text_output data selected_titles selected_sections =
           nonempty_section_texts (rows_of data) selected_titles selected_sections \<and>
         article_text_of (section_text_output data selected_titles selected_sections) =
           strip (join blank_line
             (nonempty_section_texts (rows_of data) selected_titles selected_sections))"
  using section_text_output_eq [OF assms(1,3)] by (simp add: article_text_of_def)

theorem article_text_of_selected_sections_witness:
  "article_text_of (section_text_output (DataFrame demo_rows) [u ''Gout'', u ''Asthma'']
      [u ''Gout - Treatment'', u ''Asthma - Treatment'']) =
     u ''Colchicine.'' @ [0x0A, 0x0A] @ u ''Use inhaled steroids.'' @ [0x0A, 0x0A] @
     u ''Add a beta agonist.'' \<and>
   nonempty_section_texts demo_rows [u ''Gout'', u ''Asthma'']
      [u ''Gout - Treatment'', u ''Asthma - Treatment''] =
     [u ''Colchicine.'', u ''Use inhaled steroids.'', u ''Add a beta agonist.''] \<and>
   nonempty_section_texts demo_dict_rows [u ''Asthma''] [u ''Asthma - Treatment''] =
     [u ''Use inhaled steroids.'', u ''Add a beta agonist.'']"
proof -
  have 1: "read_csv_frame (DataFrame demo_rows)"
    by (simp add: read_csv_frame_def demo_rows_def u_def)
  have 2: "set [u ''Gout - Treatment'', u ''Asthma - Treatment''] \<subseteq>
      set (section_labels (DataFrame demo_rows) [u ''Gout'', u ''Asthma''])"
    by (simp add: demo_labels)
  have 3: "no_label_clash (DataFrame demo_rows) [u ''Gout'', u ''Asthma'']
      [u ''Gout - Treatment'', u ''Asthma - Treatment'']"
    by (simp add: no_label_clash_def)
  have 4: "article_text_of [u ''Colchicine.'', u ''Use inhaled steroids.'',
      u ''Add a beta agonist.''] =
     u ''Colchicine.'' @ [0x0A, 0x0A] @ u ''Use inhaled steroids.'' @ [0x0A, 0x0A] @
     u ''Add a beta agonist.''"
    by (simp add: article_text_of_def blank_line_def strip_def isspace_def u_def)
  have 5: "read_csv_frame (RowList demo_dict_rows)"
    by (simp add: read_csv_frame_def)
  have 6: "set [u ''Asthma - Treatment''] \<subseteq>
      set (section_labels (RowList demo_dict_rows) [u ''Asthma''])"
    by (simp add: demo_labels_csv)
  have 7: "no_label_clash (RowList demo_dict_rows) [u ''Asthma''] [u ''Asthma - Treatment'']"
    by (simp add: no_label_clash_def demo_dict_rows_def truthy_def u_def)
  from article_text_of_selected_sections [OF 1 2 3] demo_texts_pd 4
    article_text_of_selected_sections [OF 5 6 7] demo_texts_csv
  show ?thesis
    by (simp add: rows_of_def)
qed

text \<open>
  C4 as it is stated fails where a matching record has an empty section text: the three
  records of the example have the selected label, the second has the text \<open>""\<close>, and the
  article text has one blank line between the two other texts, not the three texts
  joined.
\<close>

theorem article_text_skips_empty_section_text:
  "set [u ''Asthma - Treatment''] \<subseteq> set (section_labels (RowList demo_dict_rows) [u ''Asthma'']) \<and>
   article_text_of
     (section_text_output (RowList demo_dict_rows) [u ''Asthma''] [u ''Asthma - Treatment'']) =
     u ''Use inhaled steroids.'' @ [0x0A, 0x0A] @ u ''Add a beta agonist.'' \<and>
   spec_article_text demo_dict_rows [u ''Asthma''] [u ''Asthma - Treatment''] =
     u ''Use inhaled steroids.'' @ [0x0A, 0x0A, 0x0A, 0x0A] @ u ''Add a beta agonist.'' \<and>
   article_text_of
     (section_text_output (RowList demo_dict_rows) [u ''Asthma''] [u ''Asthma - Treatment'']) \<noteq>
     spec_article_text demo_dict_rows [u ''Asthma''] [u ''Asthma - Treatment'']"
proof -
  have 1: "article_text_of
     (section_text_output (RowList demo_dict_rows) [u ''Asthma''] [u ''Asthma - Treatment'']) =
     u ''Use inhaled steroids.'' @ [0x0A, 0x0A] @ u ''Add a beta agonist.''"
    unfolding demo_texts_csv
    by (simp add: article_text_of_def blank_line_def strip_def isspace_def u_def)
  have 2: "spec_article_text demo_dict_rows [u ''Asthma''] [u ''Asthma - Treatment''] =
     u ''Use inhaled steroids.'' @ [0x0A, 0x0A, 0x0A, 0x0A] @ u ''Add a beta agonist.''"
    unfolding spec_article_text_def demo_spec_texts_csv
    by (simp add: blank_line_def strip_def isspace_def u_def)
  have 3: "u ''Use inhaled steroids.'' @ [0x0A, 0x0A] @ u ''Add a beta agonist.'' \<noteq>
     u ''Use inhaled steroids.'' @ [0x0A, 0x0A, 0x0A, 0x0A] @ u ''Add a beta agonist.''"
    by (simp add: u_def)
  have 4: "set [u ''Asthma - Treatment''] \<subseteq>
      set (section_labels (RowList demo_dict_rows) [u ''Asthma''])"
    by (simp add: demo_labels_csv)
  from 1 2 3 4 show ?thesis by simp
qed

text \<open>
  C5. For every dataset and every non-empty list of selected titles taken from the
  options of the title widget, the section labels offered are sorted (in the order of
  Python strings, code point by code point), have no duplicates, and are exactly the
  strings \<open>title - section_title\<close> of the records whose title is selected and whose
  section title is not empty. This holds with pandas, for a \<open>DataFrame\<close> as \<open>read_csv\<close>
  returns it, and without.
\<close>

theorem section_labels_sorted_distinct_exact:
  assumes "selected_titles \<noteq> []"
    and "set selected_titles \<subseteq> set (titles data)"
    and "read_csv_frame data"
  shows "sorted (section_labels data selected_titles) \<and>
         distinct (section_labels data selected_titles) \<and>
         set (section_labels data selected_titles) =
           {t @ label_sep @ s | t s. t \<in> set selected_titles \<and> s \<noteq> [] \<and>
              (\<exists>r\<in>set (rows_of data). title r = Some t \<and> section_title r = Some s)}"
proof (cases data)
  case (DataFrame df)
  then have "list_all (\<lambda>r. title r \<noteq> Some [] \<and> section_title r \<noteq> Some [] \<and>
                        section_text r \<noteq> Some []) df"
    using assms(3) by (simp add: read_csv_frame_def)
  from set_section_labels_pd [OF this, of selected_titles] DataFrame show ?thesis
    by (simp add: section_labels_def rows_of_def section_labels_pd_def)
next
  case (RowList rows)
  then have "set selected_titles \<subseteq> set (titles_csv rows)"
    using assms(2) by (simp add: titles_def)
  from set_section_labels_csv [OF this] RowList show ?thesis
    by (simp add: section_labels_def rows_of_def section_labels_csv_def)
qed

theorem section_labels_sorted_distinct_exact_witness:
  "[u ''Gout'', u ''Asthma''] \<noteq> [] \<and>
   section_labels (DataFrame demo_rows) [u ''Gout'', u ''Asthma''] =
     [u ''Asthma - Diagnosis'', u ''Asthma - Treatment'', u ''Gout - Treatment''] \<and>
   sorted (section_labels (DataFrame demo_rows) [u ''Gout'', u ''Asthma'']) \<and>
   distinct (section_labels (DataFrame demo_rows) [u ''Gout'', u ''Asthma''])"
proof -
  have 1: "[u ''Gout'', u ''Asthma''] \<noteq> []"
    by simp
  have 2: "set [u ''Gout'', u ''Asthma''] \<subseteq> set (titles (DataFrame demo_rows))"
    by (simp add: demo_titles)
  have 3: "read_csv_frame (DataFrame demo_rows)"
    by (simp add: read_csv_frame_def demo_rows_def u_def)
  from section_labels_sorted_distinct_exact [OF 1 2 3] demo_labels show ?thesis
    by blast
qed

text \<open>
  C6. Take a run of the handler and a result of \<open>scrape_links\<close> for its links that has a
  text. Every call of \<open>create_quiz\<close> and every invocation of the chain in the run carries
  that text twice: the article slot contains it as a contiguous part, and the
  \<open>link_text\<close> slot is the list of the scraped texts, of which it is a member.
\<close>

theorem fetched_text_is_passed_twice:
  assumes "scrape_links env (links_of (links_text w)) = Inr scraped"
    and "item \<in> set scraped"
    and "item ''text'' = Some t"
    and "generate_quiz_handler env w section_texts = Inr shown"
    and "CallCreateQuiz inputs \<in> set shown \<or> ChainInvoke llm inputs \<in> set shown"
  shows "sublist t (article inputs) \<and>
         link_text inputs = LinkList (texts_of scraped) \<and> t \<in> set (texts_of scraped)"
proof -
  have scraped: "scraped = scraped_of env w"
    using assms(1) by (simp add: scrape_links_eq scraped_of_def)
  have links: "links_of (links_text w) \<noteq> []"
    using assms(2) scraped by (auto simp: scraped_of_def)
  have t: "t \<in> set (texts_of scraped)"
    using assms(2,3) by (auto simp: set_texts_of)
  obtain link where "item = scrape_item env link"
    using assms(2) scraped by (auto simp: scraped_of_def)
  then have "trimmed t"
    using assms(3) scrape_item_text_trimmed by blast
  moreover have "sublist t (join blank_line (article_text_of section_texts # texts_of scraped))"
    using t by (intro sublist_join) simp
  ultimately have sub: "sublist t (final_article_text env w section_texts)"
    using links scraped by (simp add: final_article_text_def sublist_strip)
  have shown: "shown = scrape_events env w @
      quiz_step env w (final_article_text env w section_texts) (final_link_text env w)"
    using assms(4) by (simp add: handler_eq)
  have "\<exists>e\<in>set (quiz_step env w (final_article_text env w section_texts)
      (final_link_text env w)). e = CallCreateQuiz inputs \<or> e = ChainInvoke llm inputs"
    using assms(5) shown by (auto dest: scrape_events_kinds)
  then have "inputs = inputs_of w (final_article_text env w section_texts)
      (final_link_text env w)"
    using quiz_step_inputs by blast
  then have "article inputs = final_article_text env w section_texts"
    and "link_text inputs = LinkList (texts_of scraped)"
    using links scraped by (simp_all add: inputs_of_def final_link_text_def)
  with sub t show ?thesis by simp
qed

theorem fetched_text_is_passed_twice_witness:
  "\<exists>inputs shown.
     generate_quiz_handler demo_env (demo_widgets\<lparr>links_text := u ''http://b.test''\<rparr>)
       [u ''Use inhaled steroids.''] = Inr shown \<and>
     ChainInvoke demo_llm inputs \<in> set shown \<and>
     article inputs = u ''Use inhaled steroids.'' @ [0x0A, 0x0A] @ u ''Hello'' \<and>
     sublist (u ''Hello'') (article inputs) \<and>
     link_text inputs = LinkList [u ''Hello'']"
proof -
  define inputs where "inputs =
     \<lparr>article = u ''Use inhaled steroids.'' @ [0x0A, 0x0A] @ u ''Hello'',
      questions = 3, focus = default_focus,
      lakemedel = [], link_text = LinkList [u ''Hello'']\<rparr>"
  define shown where "shown =
     [CallScrapeLinks [u ''http://b.test''], CallCreateQuiz inputs,
      NewAzureChatOpenAI demo_llm, ChainInvoke demo_llm inputs,
      StDivider, StMarkdown (u ''## Quiz'')]"
  have l: "links_of (links_text (demo_widgets\<lparr>links_text := u ''http://b.test''\<rparr>)) =
      [u ''http://b.test'']"
    by (simp add: demo_defs)
  have s: "scrape_links demo_env
      (links_of (links_text (demo_widgets\<lparr>links_text := u ''http://b.test''\<rparr>))) =
      Inr [[''url'' \<mapsto> u ''http://b.test'', ''text'' \<mapsto> u ''Hello'']]"
    unfolding l
    by (simp add: scrape_links_def try_except_def scrape_try_def raise_for_status_def
        demo_env_def demo_get_def split.simps isspace_def u_def)
  have i: "[''url'' \<mapsto> u ''http://b.test'', ''text'' \<mapsto> u ''Hello''] \<in>
      set [[''url'' \<mapsto> u ''http://b.test'', ''text'' \<mapsto> u ''Hello'']]"
    by simp
  have t: "[''url'' \<mapsto> u ''http://b.test'', ''text'' \<mapsto> u ''Hello''] ''text'' =
      Some (u ''Hello'')"
    by simp
  have h: "generate_quiz_handler demo_env (demo_widgets\<lparr>links_text := u ''http://b.test''\<rparr>)
       [u ''Use inhaled steroids.''] = Inr shown"
    unfolding shown_def inputs_def by (rule demo_run_link)
  have c: "CallCreateQuiz inputs \<in> set shown \<or> ChainInvoke demo_llm inputs \<in> set shown"
    by (simp add: shown_def)
  have m: "ChainInvoke demo_llm inputs \<in> set shown"
    by (simp add: shown_def)
  have a: "article inputs = u ''Use inhaled steroids.'' @ [0x0A, 0x0A] @ u ''Hello''"
    by (simp add: inputs_def)
  from fetched_text_is_passed_twice [OF s i t h c]
  have "sublist (u ''Hello'') (article inputs) \<and> link_text inputs = LinkList [u ''Hello'']"
    by (simp add: texts_of_def)
  with h m a show ?thesis by blast
qed



text \<open>
  C8. If the dataset file does not exist, \<open>load_treatments_data\<close> returns \<open>None\<close>. The run
  of the script then does not raise: it first shows the error that the data could not be
  found, shows no selection widget, and goes on with no section text at all, whatever
  the widgets hold: if the button is pressed the handler runs on the empty list of
  section texts, otherwise nothing more is shown.
\<close>

theorem missing_dataset_is_reported:
  assumes "treatments_csv env = None"
  shows "load_treatments_data env = None \<and>
         select_content (load_treatments_data env) w = ([], [StError msg_no_data]) \<and>
         (\<exists>shown. script env w = Inr (StError msg_no_data # shown) \<and>
            (if generate_quiz w then generate_quiz_handler env w [] = Inr shown
             else shown = []))"
proof -
  have l: "load_treatments_data env = None"
    using assms by (simp add: load_treatments_data_def)
  then have s: "select_content (load_treatments_data env) w = ([], [StError msg_no_data])"
    by (simp add: select_content_def)
  obtain shown where h: "generate_quiz_handler env w [] = Inr shown"
    by (simp add: handler_eq)
  have "\<exists>shown. script env w = Inr (StError msg_no_data # shown) \<and>
            (if generate_quiz w then generate_quiz_handler env w [] = Inr shown
             else shown = [])"
    using l h by (simp add: script_def select_content_def)
  with l s show ?thesis by blast
qed

theorem missing_dataset_is_reported_witness:
  "treatments_csv (demo_env\<lparr>treatments_csv := None\<rparr>) = None \<and>
   script (demo_env\<lparr>treatments_csv := None\<rparr>) demo_widgets =
     Inr [StError msg_no_data, StError msg_select_section]"
proof -
  have n: "treatments_csv (demo_env\<lparr>treatments_csv := None\<rparr>) = None"
    by simp
  have g: "generate_quiz demo_widgets"
    by (simp add: demo_widgets_def)
  have "generate_quiz_handler (demo_env\<lparr>treatments_csv := None\<rparr>) demo_widgets [] =
      Inr [StError msg_select_section]"
    by (simp add: generate_quiz_handler_def article_text_of_def scrape_step_def links_of_def
        splitlines_def quiz_step_def demo_widgets_def strip_def)
  with missing_dataset_is_reported [OF n, of demo_widgets] g n show ?thesis
    by auto
qed

text \<open>
  C9. In every run of the handler in which the focus text area is empty, every call of
  \<open>create_quiz\<close> and every invocation of the chain has the default focus of the source
  (Swedish for general understanding) in its focus slot, and that default is not empty.
  The run either refuses an empty article text or makes such a call.
\<close>

theorem empty_focus_gets_default:
  assumes "prompt_text w = []"
    and "generate_quiz_handler env w section_texts = Inr shown"
  shows "default_focus \<noteq> [] \<and>
         (\<forall>inputs. CallCreateQuiz inputs \<in> set shown \<longrightarrow> focus inputs = default_focus) \<and>
         (\<forall>llm inputs. ChainInvoke llm inputs \<in> set shown \<longrightarrow> focus inputs = default_focus) \<and>
         (StError msg_select_section \<in> set shown \<or>
          (\<exists>inputs. CallCreateQuiz inputs \<in> set shown))"
proof -
  from assms(2) have shown: "shown = scrape_events env w @
      quiz_step env w (final_article_text env w section_texts) (final_link_text env w)"
    by (simp add: handler_eq)
  have f: "focus (inputs_of w (final_article_text env w section_texts)
      (final_link_text env w)) = default_focus"
    using assms(1) by (simp add: inputs_of_def)
  have d: "default_focus \<noteq> []"
    by (simp add: default_focus_def u_def)
  have 1: "\<forall>inputs. CallCreateQuiz inputs \<in> set shown \<longrightarrow> focus inputs = default_focus"
    using shown f quiz_step_inputs [of _ env w "final_article_text env w section_texts"
        "final_link_text env w"]
    by (auto dest: scrape_events_kinds)
  have 2: "\<forall>llm inputs. ChainInvoke llm inputs \<in> set shown \<longrightarrow> focus inputs = default_focus"
    using shown f quiz_step_inputs [of _ env w "final_article_text env w section_texts"
        "final_link_text env w"]
    by (auto dest: scrape_events_kinds)
  have 3: "StError msg_select_section \<in> set shown \<or>
          (\<exists>inputs. CallCreateQuiz inputs \<in> set shown)"
  proof (cases "final_article_text env w section_texts = []")
    case True
    then show ?thesis using shown by (simp add: quiz_step_empty)
  next
    case False
    from quiz_step_generates [OF False] show ?thesis
      using shown by auto
  qed
  from d 1 2 3 show ?thesis by blast
qed

theorem empty_focus_gets_default_witness:
  "prompt_text demo_widgets = [] \<and>
   (\<exists>inputs shown.
      generate_quiz_handler demo_env demo_widgets [u ''Use inhaled steroids.''] = Inr shown \<and>
      ChainInvoke demo_llm inputs \<in> set shown \<and> focus inputs = default_focus)"
proof -
  have p: "prompt_text demo_widgets = []"
    by (simp add: demo_widgets_def)
  note t = empty_focus_gets_default [OF p demo_run]
  have "ChainInvoke demo_llm
            \<lparr>article = u ''Use inhaled steroids.'', questions = 3, focus = default_focus,
             lakemedel = [], link_text = LinkStr []\<rparr>
        \<in> set [CallCreateQuiz
            \<lparr>article = u ''Use inhaled steroids.'', questions = 3, focus = default_focus,
             lakemedel = [], link_text = LinkStr []\<rparr>,
          NewAzureChatOpenAI demo_llm,
          ChainInvoke demo_llm
            \<lparr>article = u ''Use inhaled steroids.'', questions = 3, focus = default_focus,
             lakemedel = [], link_text = LinkStr []\<rparr>,
          StDivider, StMarkdown (u ''## Quiz'')]"
    by simp
  with t p demo_run show ?thesis by blast
qed

text \<open>
  C10. For every content of the URL text area, the list of URLs is the list of its lines
  (the text cut at the line ends, which are not part of the lines), without the lines
  that have only whitespace, each stripped of surrounding whitespace. The handler calls
  \<open>scrape_links\<close> exactly when some line has a character that is not whitespace, and
  then with that list.
\<close>

theorem links_are_the_nonblank_lines:
  "links_of (links_text w) =
     map strip (filter (\<lambda>line. \<not> list_all isspace line) (splitlines (links_text w))) \<and>
   concat (splitlines (links_text w)) = filter (\<lambda>c. \<not> is_linebreak c) (links_text w) \<and>
   (\<exists>shown. generate_quiz_handler env w section_texts = Inr shown \<and>
      (list_ex (\<lambda>e. e = CallScrapeLinks (links_of (links_text w))) shown \<longleftrightarrow>
       list_ex (\<lambda>line. \<not> list_all isspace line) (splitlines (links_text w))) \<and>
      list_all (\<lambda>e. case e of CallScrapeLinks links \<Rightarrow> links = links_of (links_text w)
                          | _ \<Rightarrow> True) shown)"
proof -
  have 1: "links_of (links_text w) =
     map strip (filter (\<lambda>line. \<not> list_all isspace line) (splitlines (links_text w)))"
    by (simp add: links_of_def list_all_isspace_strip)
  have 2: "concat (splitlines (links_text w)) =
      filter (\<lambda>c. \<not> is_linebreak c) (links_text w)"
    by (simp add: splitlines_def concat_splitlines_from)
  define shown where "shown = scrape_events env w @
      quiz_step env w (final_article_text env w section_texts) (final_link_text env w)"
  have h: "generate_quiz_handler env w section_texts = Inr shown"
    by (simp add: handler_eq shown_def)
  have "CallScrapeLinks (links_of (links_text w)) \<in> set shown \<longleftrightarrow>
      links_of (links_text w) \<noteq> []"
    using quiz_step_no_scrape [of "links_of (links_text w)" env w]
    by (auto simp: shown_def scrape_events_def)
  then have 3: "list_ex (\<lambda>e. e = CallScrapeLinks (links_of (links_text w))) shown \<longleftrightarrow>
       list_ex (\<lambda>line. \<not> list_all isspace line) (splitlines (links_text w))"
    by (simp add: links_of_Nil_iff list_ex_iff)
  have "\<And>links. CallScrapeLinks links \<in> set shown \<Longrightarrow> links = links_of (links_text w)"
    using quiz_step_no_scrape [of _ env w]
    by (auto simp: shown_def dest: scrape_events_kinds)
  then have 4: "list_all (\<lambda>e. case e of CallScrapeLinks links \<Rightarrow> links = links_of (links_text w)
                          | _ \<Rightarrow> True) shown"
    by (auto simp: list_all_iff split: event.splits)
  from 1 2 h 3 4 show ?thesis by blast
qed

theorem links_are_the_nonblank_lines_witness:
  "links_of (links_text (demo_widgets\<lparr>links_text :=
       u '' http://b.test '' @ [0x0D, 0x0A, 0x0A] @ u ''  '' @ [0x09, 0x0A] @ u ''http://a.test''\<rparr>)) =
     [u ''http://b.test'', u ''http://a.test'']"
proof -
  have "splitlines (u '' http://b.test '' @ [0x0D, 0x0A, 0x0A] @ u ''  '' @ [0x09, 0x0A] @
      u ''http://a.test'') = [u '' http://b.test '', [], u ''  '' @ [0x09], u ''http://a.test'']"
    by (simp add: splitlines_def is_linebreak_def u_def)
  then show ?thesis
    using links_are_the_nonblank_lines [of "demo_widgets\<lparr>links_text :=
       u '' http://b.test '' @ [0x0D, 0x0A, 0x0A] @ u ''  '' @ [0x09, 0x0A] @ u ''http://a.test''\<rparr>"
       demo_env "[]"]
    by (simp add: strip_def isspace_def u_def)
qed

end
